theory Spec2Isabelle
  imports Complex_Main
begin

section \<open>Python values and operators\<close>

text \<open>
  The feature and mood dictionaries of \<^verbatim>\<open>app.py\<close> hold dynamically typed values.
  The model has three kinds of value: Python's unbounded \<^verbatim>\<open>int\<close>, \<^verbatim>\<open>float\<close> and
  \<^verbatim>\<open>None\<close> (the non-numeric value). A float is idealised as a real number: rounding,
  infinities, NaN and the OverflowError of converting a huge int to a float are outside
  the model. Strings and containers as dictionary values are outside the model too.
\<close>

datatype pyval = PInt int | PFloat real | PNone

datatype pyexc =
  KeyError | TypeError | ZeroDivisionError | ValueError | OperationalError | FileNotFoundError

type_synonym pydict = "string \<rightharpoonup> pyval"

text \<open>Sequencing of statements that may raise: the first exception ends the block.\<close>

definition and_then :: "pyexc + 'a \<Rightarrow> ('a \<Rightarrow> pyexc + 'b) \<Rightarrow> pyexc + 'b" where
  "and_then r k = (case r of Inl e \<Rightarrow> Inl e | Inr v \<Rightarrow> k v)"

text \<open>\<^verbatim>\<open>d[k]\<close>: KeyError when the key is absent.\<close>

definition getitem :: "pydict \<Rightarrow> string \<Rightarrow> pyexc + pyval" where
  "getitem d k = (case d k of None \<Rightarrow> Inl KeyError | Some v \<Rightarrow> Inr v)"

text \<open>The numeric value of an int or a float; \<^verbatim>\<open>None\<close> has none.\<close>

fun as_real :: "pyval \<Rightarrow> real option" where
  "as_real (PInt i) = Some (of_int i)"
| "as_real (PFloat x) = Some x"
| "as_real PNone = None"

text \<open>
  \<^verbatim>\<open>a + b\<close>, \<^verbatim>\<open>a - b\<close>, \<^verbatim>\<open>a * b\<close>: int with int gives an int, any other pair of numbers
  gives a float, anything with \<^verbatim>\<open>None\<close> raises TypeError.
\<close>

fun arith :: "(int \<Rightarrow> int \<Rightarrow> int) \<Rightarrow> (real \<Rightarrow> real \<Rightarrow> real) \<Rightarrow> pyval \<Rightarrow> pyval \<Rightarrow> pyexc + pyval" where
  "arith fi fr (PInt i) (PInt j) = Inr (PInt (fi i j))"
| "arith fi fr a b =
     (case as_real a of None \<Rightarrow> Inl TypeError
      | Some x \<Rightarrow> (case as_real b of None \<Rightarrow> Inl TypeError
                   | Some y \<Rightarrow> Inr (PFloat (fr x y))))"

definition py_add :: "pyval \<Rightarrow> pyval \<Rightarrow> pyexc + pyval" where
  "py_add = arith (+) (+)"

definition py_sub :: "pyval \<Rightarrow> pyval \<Rightarrow> pyexc + pyval" where
  "py_sub = arith (-) (-)"

definition py_mul :: "pyval \<Rightarrow> pyval \<Rightarrow> pyexc + pyval" where
  "py_mul = arith (*) (*)"

text \<open>\<^verbatim>\<open>a / b\<close>: true division, always a float; ZeroDivisionError on a zero divisor.\<close>

definition py_truediv :: "pyval \<Rightarrow> pyval \<Rightarrow> pyexc + pyval" where
  "py_truediv a b =
     (case as_real a of None \<Rightarrow> Inl TypeError
      | Some x \<Rightarrow> (case as_real b of None \<Rightarrow> Inl TypeError
                   | Some y \<Rightarrow> if y = 0 then Inl ZeroDivisionError else Inr (PFloat (x / y))))"

text \<open>\<^verbatim>\<open>a < b\<close>: numbers compare by value, \<^verbatim>\<open>None\<close> is not ordered.\<close>

definition py_lt :: "pyval \<Rightarrow> pyval \<Rightarrow> pyexc + bool" where
  "py_lt a b =
     (case as_real a of None \<Rightarrow> Inl TypeError
      | Some x \<Rightarrow> (case as_real b of None \<Rightarrow> Inl TypeError | Some y \<Rightarrow> Inr (x < y)))"

text \<open>\<^verbatim>\<open>min(a, b)\<close> keeps \<^verbatim>\<open>a\<close> unless \<^verbatim>\<open>b < a\<close>.\<close>

definition py_min :: "pyval \<Rightarrow> pyval \<Rightarrow> pyexc + pyval" where
  "py_min a b = and_then (py_lt b a) (\<lambda>lt. Inr (if lt then b else a))"

text \<open>\<^verbatim>\<open>float(v)\<close>.\<close>

definition py_float :: "pyval \<Rightarrow> pyexc + real" where
  "py_float v = (case as_real v of None \<Rightarrow> Inl TypeError | Some x \<Rightarrow> Inr x)"

section \<open>The mood scorer\<close>

text \<open>
  \<^verbatim>\<open>analyze_mood(features)\<close> of \<^verbatim>\<open>app.py\<close>. The three local variables are definitions
  of their own; the body of the \<^verbatim>\<open>try\<close> is \<open>analyze_mood_body\<close>, and the \<^verbatim>\<open>except\<close>
  clause turns every exception into the result \<^verbatim>\<open>None\<close>. The write to the log file in
  the \<^verbatim>\<open>except\<close> clause is not modelled.
\<close>

definition moods0 :: pydict where
  "moods0 = [''happy_intensity'' \<mapsto> PFloat 0, ''sad_intensity'' \<mapsto> PFloat 0,
             ''energetic_intensity'' \<mapsto> PFloat 0, ''calm_intensity'' \<mapsto> PFloat 0,
             ''angry_intensity'' \<mapsto> PFloat 0]"

definition tempo_factor :: "pydict \<Rightarrow> pyexc + pyval" where
  "tempo_factor features =
     and_then (getitem features ''tempo'') (\<lambda>t.
     and_then (py_truediv t (PFloat 180)) (\<lambda>q.
     py_min q (PFloat 1)))"

definition energy_factor :: "pydict \<Rightarrow> pyexc + pyval" where
  "energy_factor features =
     and_then (getitem features ''rms_energy'') (\<lambda>r. py_mul r (PInt 10))"

definition brightness :: "pydict \<Rightarrow> pyexc + pyval" where
  "brightness features =
     and_then (getitem features ''spectral_centroid'') (\<lambda>c. py_truediv c (PInt 4000))"

definition analyze_mood_body :: "pydict \<Rightarrow> pyexc + pydict" where
  "analyze_mood_body features =
     and_then (tempo_factor features) (\<lambda>tf.
     and_then (energy_factor features) (\<lambda>ef.
     and_then (brightness features) (\<lambda>br.
     and_then (py_add tf ef) (\<lambda>s1.
     and_then (py_truediv s1 (PInt 2)) (\<lambda>h1.
     and_then (py_min (PFloat 1) h1) (\<lambda>energetic.
     and_then (py_add br tf) (\<lambda>s2.
     and_then (py_truediv s2 (PInt 2)) (\<lambda>h2.
     and_then (py_min (PFloat 1) h2) (\<lambda>happy.
     and_then (getitem features ''zero_crossing_rate'') (\<lambda>z.
     and_then (py_mul ef z) (\<lambda>p.
     and_then (py_min (PFloat 1) p) (\<lambda>angry.
     let m1 = moods0(''energetic_intensity'' \<mapsto> energetic);
         m2 = m1(''happy_intensity'' \<mapsto> happy);
         m3 = m2(''angry_intensity'' \<mapsto> angry)
     in
     and_then (getitem m3 ''energetic_intensity'') (\<lambda>e.
     and_then (py_sub (PFloat 1) e) (\<lambda>calm.
     let m4 = m3(''calm_intensity'' \<mapsto> calm) in
     and_then (getitem m4 ''happy_intensity'') (\<lambda>h.
     and_then (py_sub (PFloat 1) h) (\<lambda>sad.
     Inr (m4(''sad_intensity'' \<mapsto> sad))))))))))))))))))"

definition analyze_mood :: "pydict \<Rightarrow> pydict option" where
  "analyze_mood features =
     (case analyze_mood_body features of Inl e \<Rightarrow> None | Inr moods \<Rightarrow> Some moods)"

text \<open>
  The keys \<^verbatim>\<open>analyze_mood\<close> reads, and the keys \<^verbatim>\<open>extract_mood_features\<close> writes
  (the required keys of a feature vector).
\<close>

definition used_keys :: "string list" where
  "used_keys = [''tempo'', ''rms_energy'', ''spectral_centroid'', ''zero_crossing_rate'']"

definition required_keys :: "string list" where
  "required_keys =
     [''tempo'', ''spectral_centroid'', ''spectral_bandwidth'', ''rms_energy'',
      ''zero_crossing_rate'', ''chroma_mean'',
      ''mfcc_0'', ''mfcc_1'', ''mfcc_2'', ''mfcc_3'', ''mfcc_4'', ''mfcc_5'', ''mfcc_6'',
      ''mfcc_7'', ''mfcc_8'', ''mfcc_9'', ''mfcc_10'', ''mfcc_11'', ''mfcc_12'']"

definition is_float :: "pyval option \<Rightarrow> bool" where
  "is_float v = (case v of Some (PFloat x) \<Rightarrow> True | _ \<Rightarrow> False)"

definition absent_or_non_numeric :: "pydict \<Rightarrow> string \<Rightarrow> bool" where
  "absent_or_non_numeric d k = (case d k of None \<Rightarrow> True | Some v \<Rightarrow> as_real v = None)"

section \<open>Paths of the audio files\<close>

text \<open>
  \<^verbatim>\<open>str(n)\<close> on an int: the decimal digits, most significant first, after a minus sign
  when the number is negative.
\<close>

definition digit_char :: "nat \<Rightarrow> char" where
  "digit_char d = ''0123456789'' ! d"

fun str_nat :: "nat \<Rightarrow> string" where
  "str_nat n = (if n < 10 then [digit_char n] else str_nat (n div 10) @ [digit_char (n mod 10)])"

definition str_int :: "int \<Rightarrow> string" where
  "str_int i = (if i < 0 then CHR ''-'' # str_nat (nat (- i)) else str_nat (nat i))"

text \<open>
  \<^verbatim>\<open>s.zfill(width)\<close>: a string at least as long as the width is returned as it is; a
  shorter one is padded on the left with zeros, after its leading sign if it has one.
\<close>

definition zfill :: "string \<Rightarrow> nat \<Rightarrow> string" where
  "zfill s width =
     (if width \<le> length s then s
      else let pad = replicate (width - length s) CHR ''0'' in
        (case s of
           [] \<Rightarrow> pad
         | c # rest \<Rightarrow> if c = CHR ''+'' \<or> c = CHR ''-'' then c # pad @ rest else pad @ s))"

text \<open>
  \<^verbatim>\<open>os.path.join(a, *p)\<close> of \<^verbatim>\<open>posixpath\<close>: a component that starts with a slash replaces
  what came before it; otherwise it is appended, after a slash unless the path so far is
  empty or ends with one.
\<close>

fun path_join :: "string \<Rightarrow> string list \<Rightarrow> string" where
  "path_join a [] = a"
| "path_join a (b # bs) =
     path_join
       (if take 1 b = ''/'' then b
        else if a = [] \<or> last a = CHR ''/'' then a @ b
        else a @ ''/'' @ b) bs"

definition get_audio_path :: "int \<Rightarrow> string" where
  "get_audio_path track_id =
     (let tid_str = zfill (str_int track_id) 6
      in path_join ''dataset'' [''fma_small'', take 3 tid_str, tid_str @ ''.mp3''])"

text \<open>The number a string of decimal digits denotes, and what a decimal digit is.\<close>

definition is_digit :: "char \<Rightarrow> bool" where
  "is_digit c = (c \<in> set ''0123456789'')"

definition digit_val :: "char \<Rightarrow> nat" where
  "digit_val c = of_char c - 48"

definition decimal_value :: "string \<Rightarrow> nat" where
  "decimal_value s = foldl (\<lambda>acc c. 10 * acc + digit_val c) 0 s"

section \<open>The catalog loader\<close>

text \<open>
  A track is the dictionary \<^verbatim>\<open>load_all_tracks\<close> builds for one row of the metadata table.
  The environment of a run holds what the program reads from outside: the result of
  \<^verbatim>\<open>pd.read_csv\<close> on the metadata file (the rows, or the exception it raised), the files
  that exist, and the result of \<^verbatim>\<open>extract_mood_features\<close> for each path (the feature
  dictionary, or \<^verbatim>\<open>None\<close> when decoding or a feature computation failed; the audio
  library is not modelled). Writes to the log file are not modelled.
\<close>

record track =
  track_id :: int
  title :: string
  artist :: string
  album :: string
  file_path :: string

record catalog_row =
  row_id :: int
  row_title :: string
  row_artist :: string
  row_album :: string

record env =
  read_csv :: "pyexc + catalog_row list"
  path_exists :: "string \<Rightarrow> bool"
  extract_mood_features :: "string \<Rightarrow> pydict option"

definition track_of_row :: "catalog_row \<Rightarrow> track" where
  "track_of_row r =
     \<lparr>track_id = row_id r, title = row_title r, artist = row_artist r, album = row_album r,
      file_path = get_audio_path (row_id r)\<rparr>"

definition load_all_tracks :: "env \<Rightarrow> track list" where
  "load_all_tracks e =
     (case read_csv e of
        Inl exc \<Rightarrow> []
      | Inr tracks \<Rightarrow>
          map track_of_row (filter (\<lambda>r. path_exists e (get_audio_path (row_id r))) tracks))"

section \<open>The store\<close>

text \<open>
  The database file \<^verbatim>\<open>music_mood.db\<close> with the schema of \<^verbatim>\<open>setup_database.py\<close>: a table
  is \<open>None\<close> while it does not exist, and a statement on a missing table raises
  \<^verbatim>\<open>sqlite3.OperationalError\<close>. The rows of a table are a list in insertion order; SQL
  gives the order no meaning. \<open>mood_seq\<close> is the counter SQLite keeps for the
  \<^verbatim>\<open>AUTOINCREMENT\<close> key of \<^verbatim>\<open>mood_analysis\<close>. The foreign key of \<^verbatim>\<open>mood_analysis\<close> is
  not enforced (SQLite's default), and 64-bit limits of row ids are not modelled.
\<close>

record song_row =
  song_track_id :: int
  song_title :: string
  song_artist :: string
  song_album :: string
  song_file_path :: string

record mood_row =
  mood_id :: int
  mood_track_id :: int
  happy_intensity :: real
  sad_intensity :: real
  energetic_intensity :: real
  calm_intensity :: real
  angry_intensity :: real

record database =
  songs :: "song_row list option"
  mood_analysis :: "mood_row list option"
  mood_seq :: int

text \<open>
  \<^verbatim>\<open>INSERT OR REPLACE INTO songs\<close>: \<^verbatim>\<open>track_id\<close> is the primary key, so a row with the
  same key is deleted before the new row is inserted.
\<close>

definition insert_or_replace_song :: "song_row \<Rightarrow> database \<Rightarrow> pyexc + database" where
  "insert_or_replace_song r db =
     (case songs db of
        None \<Rightarrow> Inl OperationalError
      | Some rows \<Rightarrow>
          Inr (db\<lparr>songs := Some (filter (\<lambda>x. song_track_id x \<noteq> song_track_id r) rows @ [r])\<rparr>))"

text \<open>
  \<^verbatim>\<open>INSERT INTO mood_analysis\<close> without an id: the new id is one more than the largest
  id the table holds or has ever given out.
\<close>

definition next_mood_id :: "mood_row list \<Rightarrow> int \<Rightarrow> int" where
  "next_mood_id rows seq = foldr max (map mood_id rows) seq + 1"

definition insert_mood :: "int \<times> real \<times> real \<times> real \<times> real \<times> real \<Rightarrow> database \<Rightarrow> pyexc + database" where
  "insert_mood params db =
     (case params of (tid, happy, sad, energetic, calm, angry) \<Rightarrow>
        (case mood_analysis db of
           None \<Rightarrow> Inl OperationalError
         | Some rows \<Rightarrow>
             let new_id = next_mood_id rows (mood_seq db) in
             Inr (db\<lparr>mood_analysis := Some (rows @
                      [\<lparr>mood_id = new_id, mood_track_id = tid, happy_intensity = happy,
                        sad_intensity = sad, energetic_intensity = energetic,
                        calm_intensity = calm, angry_intensity = angry\<rparr>]),
                    mood_seq := new_id\<rparr>)))"

section \<open>The batch processor\<close>

text \<open>
  The state of a run of \<^verbatim>\<open>process_and_store\<close>: the committed content of the database
  file (\<open>disk\<close>), its content as the open connection sees it, uncommitted writes included
  (\<open>view\<close>), the two counters (0 until the program assigns them) and the lines printed.
\<close>

record run =
  disk :: database
  view :: database
  processed_count :: nat
  error_count :: nat
  console :: "string list"

definition print :: "string \<Rightarrow> run \<Rightarrow> run" where
  "print line s = s\<lparr>console := console s @ [line]\<rparr>"

definition commit :: "run \<Rightarrow> run" where
  "commit s = s\<lparr>disk := view s\<rparr>"

definition close :: "run \<Rightarrow> run" where
  "close s = s\<lparr>view := disk s\<rparr>"

definition song_of :: "track \<Rightarrow> song_row" where
  "song_of t =
     \<lparr>song_track_id = track_id t, song_title = title t, song_artist = artist t,
      song_album = album t, song_file_path = file_path t\<rparr>"

text \<open>The parameter tuple of the second statement, evaluated left to right.\<close>

definition mood_params :: "track \<Rightarrow> pydict \<Rightarrow> pyexc + (int \<times> real \<times> real \<times> real \<times> real \<times> real)" where
  "mood_params t moods =
     and_then (and_then (getitem moods ''happy_intensity'') py_float) (\<lambda>happy.
     and_then (and_then (getitem moods ''sad_intensity'') py_float) (\<lambda>sad.
     and_then (and_then (getitem moods ''energetic_intensity'') py_float) (\<lambda>energetic.
     and_then (and_then (getitem moods ''calm_intensity'') py_float) (\<lambda>calm.
     and_then (and_then (getitem moods ''angry_intensity'') py_float) (\<lambda>angry.
     Inr (track_id t, happy, sad, energetic, calm, angry))))))"

text \<open>
  The body of the inner loop for one track. An exception of the second statement leaves
  the row the first statement wrote in the open transaction.
\<close>

definition process_track :: "env \<Rightarrow> track \<Rightarrow> run \<Rightarrow> run" where
  "process_track e t s =
     (case extract_mood_features e (file_path t) of
        None \<Rightarrow> s\<lparr>error_count := error_count s + 1\<rparr>
      | Some features \<Rightarrow>
          (case analyze_mood features of
             None \<Rightarrow> s\<lparr>error_count := error_count s + 1\<rparr>
           | Some moods \<Rightarrow>
               (case insert_or_replace_song (song_of t) (view s) of
                  Inl exc \<Rightarrow> s\<lparr>error_count := error_count s + 1\<rparr>
                | Inr db1 \<Rightarrow>
                    (case and_then (mood_params t moods) (\<lambda>p. insert_mood p db1) of
                       Inl exc \<Rightarrow> s\<lparr>view := db1, error_count := error_count s + 1\<rparr>
                     | Inr db2 \<Rightarrow> s\<lparr>view := db2, processed_count := processed_count s + 1\<rparr>))))"

text \<open>The inner loop: the tracks of one batch, in order.\<close>

definition process_batch :: "env \<Rightarrow> track list \<Rightarrow> run \<Rightarrow> run" where
  "process_batch e batch s = foldl (\<lambda>s t. process_track e t s) s batch"

definition batch_header :: "nat \<Rightarrow> nat \<Rightarrow> nat \<Rightarrow> string" where
  "batch_header i batch_size total_tracks =
     CHR 0x0A # ''Processing batch '' @ str_nat (i div batch_size + 1) @ ''/'' @
     str_nat ((total_tracks + batch_size - 1) div batch_size)"

definition progress_line :: "run \<Rightarrow> nat \<Rightarrow> string" where
  "progress_line s total_tracks =
     ''Progress: '' @ str_nat (processed_count s) @ ''/'' @ str_nat total_tracks @
     '' tracks processed, '' @ str_nat (error_count s) @ '' errors''"

text \<open>
  The outer loop over \<^verbatim>\<open>range(0, total_tracks, batch_size)\<close> for a positive batch size,
  from index \<open>i\<close> on: the batch is the slice \<^verbatim>\<open>tracks[i:i + batch_size]\<close>, and the
  connection commits after each batch.
\<close>

function batch_loop :: "env \<Rightarrow> track list \<Rightarrow> nat \<Rightarrow> nat \<Rightarrow> run \<Rightarrow> run" where
  "batch_loop e tracks batch_size i s =
     (if batch_size = 0 \<or> length tracks \<le> i then s
      else
        let batch = take batch_size (drop i tracks);
            s1 = print (batch_header i batch_size (length tracks)) s;
            s2 = process_batch e batch s1;
            s3 = commit s2;
            s4 = print (progress_line s3 (length tracks)) s3
        in batch_loop e tracks batch_size (i + batch_size) s4)"
  by pat_completeness auto
termination
  by (relation "measure (\<lambda>(e, tracks, batch_size, i, s). length tracks - i)") auto

text \<open>
  \<^verbatim>\<open>process_and_store(batch_size)\<close> on the database content \<open>db\<close> (a database without
  tables when the file did not exist before \<^verbatim>\<open>sqlite3.connect\<close>): the exception that
  leaves the function, if any, and the state of the run at that point. A batch size of
  zero makes \<^verbatim>\<open>range\<close> raise ValueError; a negative one gives no batch at all. On an
  empty track list the function returns before it closes the connection.
\<close>

definition process_and_store :: "env \<Rightarrow> int \<Rightarrow> database \<Rightarrow> pyexc option \<times> run" where
  "process_and_store e batch_size db =
     (let s0 = \<lparr>disk = db, view = db, processed_count = 0, error_count = 0, console = []\<rparr>;
          s1 = print ''Loading tracks metadata...'' s0;
          tracks = load_all_tracks e
      in
        if tracks = [] then (None, print ''No tracks found!'' s1)
        else
          let total_tracks = length tracks;
              s2 = print (CHR 0x0A # ''Processing '' @ str_nat total_tracks @ '' tracks...'') s1
          in
            if batch_size = 0 then (Some ValueError, s2)
            else
              let s3 = (if batch_size < 0 then s2
                        else batch_loop e tracks (nat batch_size) 0 s2);
                  s4 = close s3;
                  s5 = print (CHR 0x0A # ''Processing complete!'') s4;
                  s6 = print (''Successfully processed: '' @ str_nat (processed_count s5) @ '' tracks'') s5;
                  s7 = print (''Errors: '' @ str_nat (error_count s6) @ '' tracks'') s6;
                  s8 = print ''Check the log file for details about any errors.'' s7
              in (None, s8))"

text \<open>What happens to a track at the first two stages of the pipeline.\<close>

definition scores :: "env \<Rightarrow> track \<Rightarrow> bool" where
  "scores e t =
     (case extract_mood_features e (file_path t) of
        None \<Rightarrow> False
      | Some features \<Rightarrow> analyze_mood features \<noteq> None)"

definition fails_scoring :: "env \<Rightarrow> track \<Rightarrow> bool" where
  "fails_scoring e t =
     (case extract_mood_features e (file_path t) of
        None \<Rightarrow> False
      | Some features \<Rightarrow> analyze_mood features = None)"

text \<open>
  A mood_analysis row is the row of a track when it holds the track's id and the
  parameter tuple computed from the scorer's result on the track's features.
\<close>

definition row_matches :: "env \<Rightarrow> track \<Rightarrow> mood_row \<Rightarrow> bool" where
  "row_matches e t r =
     (case extract_mood_features e (file_path t) of
        None \<Rightarrow> False
      | Some features \<Rightarrow>
          (case analyze_mood features of
             None \<Rightarrow> False
           | Some moods \<Rightarrow>
               mood_track_id r = track_id t \<and>
               mood_params t moods =
                 Inr (track_id t, happy_intensity r, sad_intensity r, energetic_intensity r,
                      calm_intensity r, angry_intensity r)))"

text \<open>
  The part of the state the loop body reads and writes: the open transaction and the two
  counters.
\<close>

definition core :: "run \<Rightarrow> database \<times> nat \<times> nat" where
  "core s = (view s, processed_count s, error_count s)"

text \<open>
  An example run: a catalog of three rows whose audio files exist; the features of the
  second file lack every key, so the scorer fails on it; the database has both tables,
  empty.
\<close>

definition demo_features :: pydict where
  "demo_features = [''tempo'' \<mapsto> PFloat 180, ''rms_energy'' \<mapsto> PFloat 0.05,
                    ''spectral_centroid'' \<mapsto> PFloat 2000, ''zero_crossing_rate'' \<mapsto> PFloat 0.1]"

definition demo_row :: "int \<Rightarrow> catalog_row" where
  "demo_row i = \<lparr>row_id = i, row_title = ''title'', row_artist = ''artist'', row_album = ''album''\<rparr>"

definition demo_env :: env where
  "demo_env =
     \<lparr>read_csv = Inr [demo_row 1, demo_row 2, demo_row 3],
      path_exists = (\<lambda>p. True),
      extract_mood_features =
        (\<lambda>p. if p = ''dataset/fma_small/000/000002.mp3'' then Some Map.empty
             else Some demo_features)\<rparr>"

definition demo_db :: database where
  "demo_db = \<lparr>songs = Some [], mood_analysis = Some [], mood_seq = 0\<rparr>"

section \<open>Creating the database\<close>

text \<open>
  \<^verbatim>\<open>create_database(db_name)\<close> of \<^verbatim>\<open>setup_database.py\<close>. The file system maps the name of
  a database file to its content; \<open>user_input\<close> is the line \<^verbatim>\<open>input\<close> returns when the
  program asks. The result is the returned value, the file system afterwards and what was
  written to the console (the prompt of \<^verbatim>\<open>input\<close> included). Failures of
  \<^verbatim>\<open>os.remove\<close> and of SQLite are not modelled: in the model the statements of the
  \<^verbatim>\<open>try\<close> block succeed.
\<close>

type_synonym files = "string \<rightharpoonup> database"

text \<open>
  \<^verbatim>\<open>s.lower()\<close> on ASCII letters; other characters, which are bytes here, stay as
  they are.
\<close>

definition lower_char :: "char \<Rightarrow> char" where
  "lower_char c =
     (case map_of (zip ''ABCDEFGHIJKLMNOPQRSTUVWXYZ'' ''abcdefghijklmnopqrstuvwxyz'') c of
        None \<Rightarrow> c
      | Some l \<Rightarrow> l)"

definition lower :: "string \<Rightarrow> string" where
  "lower s = map lower_char s"

text \<open>
  \<^verbatim>\<open>sqlite3.connect\<close> creates a database without tables when the file does not exist;
  \<^verbatim>\<open>CREATE TABLE IF NOT EXISTS\<close> leaves a table that exists as it is.
\<close>

definition connect :: "files \<Rightarrow> string \<Rightarrow> database" where
  "connect fs db_name =
     (case fs db_name of
        None \<Rightarrow> \<lparr>songs = None, mood_analysis = None, mood_seq = 0\<rparr>
      | Some db \<Rightarrow> db)"

definition create_tables :: "database \<Rightarrow> database" where
  "create_tables db =
     db\<lparr>songs := (case songs db of None \<Rightarrow> Some [] | Some rows \<Rightarrow> Some rows),
        mood_analysis := (case mood_analysis db of None \<Rightarrow> Some [] | Some rows \<Rightarrow> Some rows)\<rparr>"

definition create_database :: "string \<Rightarrow> string \<Rightarrow> files \<Rightarrow> bool \<times> files \<times> string list" where
  "create_database db_name user_input fs =
     (let warning =
            [''Warning: Database '' @ db_name @ '' already exists!'',
             ''Do you want to create a new database? This will delete the existing one. (y/n): ''];
          build = (\<lambda>fs1 out.
            (True, fs1(db_name \<mapsto> create_tables (connect fs1 db_name)),
             out @ [''Database created successfully!'']))
      in
        if db_name \<in> dom fs then
          if lower user_input \<noteq> ''y'' then
            (False, fs, warning @ [''Database creation cancelled.''])
          else build (fs(db_name := None)) warning
        else build fs [])"

section \<open>Properties of the mood scorer\<close>

lemma and_then_InrE:
  assumes "and_then r k = Inr v"
  obtains x where "r = Inr x" and "k x = Inr v"
  using assms by (cases r) (simp_all add: and_then_def)

lemma and_then_simps [simp]: "and_then (Inr x) k = k x" "and_then (Inl e) k = Inl e"
  by (simp_all add: and_then_def)

lemma py_truediv_Inr: "py_truediv a b = Inr v \<Longrightarrow> \<exists>x. v = PFloat x"
  by (auto simp: py_truediv_def split: option.splits if_splits)

lemma py_min_one: "py_min (PFloat 1) (PFloat x) = Inr (PFloat (min 1 x))"
  by (simp add: py_min_def py_lt_def min_def)

lemma py_sub_one: "py_sub (PFloat 1) (PFloat e) = Inr (PFloat (1 - e))"
  by (simp add: py_sub_def)

lemma clamp_half:
  assumes "py_truediv s (PInt 2) = Inr h" and "py_min (PFloat 1) h = Inr v"
  shows "\<exists>x. v = PFloat (min 1 x)"
proof -
  from assms(1) obtain x where "h = PFloat x" by (auto dest: py_truediv_Inr)
  with assms(2) show ?thesis by (auto simp: py_min_one)
qed

lemma analyze_mood_bodyE:
  assumes "analyze_mood_body features = Inr m"
  obtains tf ef br s1 h1 energetic s2 h2 happy z p angry e calm h sad where
    "tempo_factor features = Inr tf" and "energy_factor features = Inr ef"
    and "brightness features = Inr br"
    and "py_add tf ef = Inr s1" and "py_truediv s1 (PInt 2) = Inr h1"
    and "py_min (PFloat 1) h1 = Inr energetic"
    and "py_add br tf = Inr s2" and "py_truediv s2 (PInt 2) = Inr h2"
    and "py_min (PFloat 1) h2 = Inr happy"
    and "getitem features ''zero_crossing_rate'' = Inr z" and "py_mul ef z = Inr p"
    and "py_min (PFloat 1) p = Inr angry"
    and "getitem (moods0(''energetic_intensity'' \<mapsto> energetic, ''happy_intensity'' \<mapsto> happy,
           ''angry_intensity'' \<mapsto> angry)) ''energetic_intensity'' = Inr e"
    and "py_sub (PFloat 1) e = Inr calm"
    and "getitem (moods0(''energetic_intensity'' \<mapsto> energetic, ''happy_intensity'' \<mapsto> happy,
           ''angry_intensity'' \<mapsto> angry, ''calm_intensity'' \<mapsto> calm)) ''happy_intensity'' = Inr h"
    and "py_sub (PFloat 1) h = Inr sad"
    and "moods0(''energetic_intensity'' \<mapsto> energetic, ''happy_intensity'' \<mapsto> happy,
           ''angry_intensity'' \<mapsto> angry, ''calm_intensity'' \<mapsto> calm, ''sad_intensity'' \<mapsto> sad) = m"
  using assms unfolding analyze_mood_body_def Let_def
  apply (elim and_then_InrE)
  apply (rule that)
  apply assumption+
  apply simp
  done

lemma analyze_mood_body_Inr:
  assumes "analyze_mood_body features = Inr m"
  shows "\<exists>x y a. m = moods0(''energetic_intensity'' \<mapsto> PFloat (min 1 x),
        ''happy_intensity'' \<mapsto> PFloat (min 1 y),
        ''angry_intensity'' \<mapsto> a,
        ''calm_intensity'' \<mapsto> PFloat (1 - min 1 x),
        ''sad_intensity'' \<mapsto> PFloat (1 - min 1 y))"
proof -
  from assms obtain s1 h1 energetic s2 h2 happy angry e calm h sad where
    a: "py_truediv s1 (PInt 2) = Inr h1" "py_min (PFloat 1) h1 = Inr energetic"
    and b: "py_truediv s2 (PInt 2) = Inr h2" "py_min (PFloat 1) h2 = Inr happy"
    and e: "getitem (moods0(''energetic_intensity'' \<mapsto> energetic, ''happy_intensity'' \<mapsto> happy,
           ''angry_intensity'' \<mapsto> angry)) ''energetic_intensity'' = Inr e"
    and calm: "py_sub (PFloat 1) e = Inr calm"
    and h: "getitem (moods0(''energetic_intensity'' \<mapsto> energetic, ''happy_intensity'' \<mapsto> happy,
           ''angry_intensity'' \<mapsto> angry, ''calm_intensity'' \<mapsto> calm)) ''happy_intensity'' = Inr h"
    and sad: "py_sub (PFloat 1) h = Inr sad"
    and m: "moods0(''energetic_intensity'' \<mapsto> energetic, ''happy_intensity'' \<mapsto> happy,
           ''angry_intensity'' \<mapsto> angry, ''calm_intensity'' \<mapsto> calm, ''sad_intensity'' \<mapsto> sad) = m"
    by (rule analyze_mood_bodyE)
  from a obtain x where x: "energetic = PFloat (min 1 x)" using clamp_half by blast
  from b obtain y where y: "happy = PFloat (min 1 y)" using clamp_half by blast
  from e have e': "e = energetic" by (simp add: getitem_def)
  from h have h': "h = happy" by (simp add: getitem_def)
  from calm have c: "calm = PFloat (1 - min 1 x)" unfolding e' x by (simp add: py_sub_one)
  from sad have s: "sad = PFloat (1 - min 1 y)" unfolding h' y by (simp add: py_sub_one)
  from m show ?thesis unfolding x y c s by blast
qed

lemma py_min_float: "py_min (PFloat a) (PFloat b) = Inr (PFloat (min a b))"
  by (simp add: py_min_def py_lt_def min_def)

lemma analyze_mood_floats:
  assumes "features ''tempo'' = Some (PFloat t)"
    and "features ''rms_energy'' = Some (PFloat r)"
    and "features ''spectral_centroid'' = Some (PFloat c)"
    and "features ''zero_crossing_rate'' = Some (PFloat z)"
  shows "analyze_mood features = Some (moods0(
      ''energetic_intensity'' \<mapsto> PFloat (min 1 ((min (t / 180) 1 + r * 10) / 2)),
      ''happy_intensity'' \<mapsto> PFloat (min 1 ((c / 4000 + min (t / 180) 1) / 2)),
      ''angry_intensity'' \<mapsto> PFloat (min 1 (r * 10 * z)),
      ''calm_intensity'' \<mapsto> PFloat (1 - min 1 ((min (t / 180) 1 + r * 10) / 2)),
      ''sad_intensity'' \<mapsto> PFloat (1 - min 1 ((c / 4000 + min (t / 180) 1) / 2))))"
proof -
  have tf: "tempo_factor features = Inr (PFloat (min (t / 180) 1))"
    using assms(1) by (simp add: tempo_factor_def getitem_def py_truediv_def py_min_float)
  have ef: "energy_factor features = Inr (PFloat (r * 10))"
    using assms(2) by (simp add: energy_factor_def getitem_def py_mul_def)
  have br: "brightness features = Inr (PFloat (c / 4000))"
    using assms(3) by (simp add: brightness_def getitem_def py_truediv_def)
  have z: "getitem features ''zero_crossing_rate'' = Inr (PFloat z)"
    using assms(4) by (simp add: getitem_def)
  have body: "analyze_mood_body features = Inr (moods0(
      ''energetic_intensity'' \<mapsto> PFloat (min 1 ((min (t / 180) 1 + r * 10) / 2)),
      ''happy_intensity'' \<mapsto> PFloat (min 1 ((c / 4000 + min (t / 180) 1) / 2)),
      ''angry_intensity'' \<mapsto> PFloat (min 1 (r * 10 * z)),
      ''calm_intensity'' \<mapsto> PFloat (1 - min 1 ((min (t / 180) 1 + r * 10) / 2)),
      ''sad_intensity'' \<mapsto> PFloat (1 - min 1 ((c / 4000 + min (t / 180) 1) / 2))))"
    unfolding analyze_mood_body_def tf ef br z
    by (simp add: py_add_def py_truediv_def py_min_float py_mul_def py_sub_def getitem_def Let_def)
  show ?thesis by (simp add: analyze_mood_def body)
qed

lemma moods0_keys: "moods0 k = (if k \<in> {''happy_intensity'', ''sad_intensity'', ''energetic_intensity'', ''calm_intensity'', ''angry_intensity''} then Some (PFloat 0) else None)"
  by (simp add: moods0_def)

text \<open>
  Claim C1. On a feature vector with tempo 180, rms_energy 0.05, spectral_centroid 2000 and
  zero_crossing_rate 0.1 (whatever its other keys), the scorer computes tempo_factor 1.0,
  energy_factor 0.5, brightness 0.5 and returns energetic 0.75, happy 0.75, angry 0.05,
  calm 0.25, sad 0.25.
\<close>

theorem analyze_mood_example:
  assumes "features ''tempo'' = Some (PFloat 180)"
    and "features ''rms_energy'' = Some (PFloat 0.05)"
    and "features ''spectral_centroid'' = Some (PFloat 2000)"
    and "features ''zero_crossing_rate'' = Some (PFloat 0.1)"
  shows "tempo_factor features = Inr (PFloat 1.0) \<and>
         energy_factor features = Inr (PFloat 0.5) \<and>
         brightness features = Inr (PFloat 0.5) \<and>
         (\<exists>moods. analyze_mood features = Some moods \<and>
            moods ''energetic_intensity'' = Some (PFloat 0.75) \<and>
            moods ''happy_intensity'' = Some (PFloat 0.75) \<and>
            moods ''angry_intensity'' = Some (PFloat 0.05) \<and>
            moods ''calm_intensity'' = Some (PFloat 0.25) \<and>
            moods ''sad_intensity'' = Some (PFloat 0.25))"
proof -
  have tf: "tempo_factor features = Inr (PFloat 1.0)"
    using assms(1) by (simp add: tempo_factor_def getitem_def py_truediv_def py_min_float)
  have ef: "energy_factor features = Inr (PFloat 0.5)"
    using assms(2) by (simp add: energy_factor_def getitem_def py_mul_def)
  have br: "brightness features = Inr (PFloat 0.5)"
    using assms(3) by (simp add: brightness_def getitem_def py_truediv_def)
  have "\<exists>moods. analyze_mood features = Some moods \<and>
            moods ''energetic_intensity'' = Some (PFloat 0.75) \<and>
            moods ''happy_intensity'' = Some (PFloat 0.75) \<and>
            moods ''angry_intensity'' = Some (PFloat 0.05) \<and>
            moods ''calm_intensity'' = Some (PFloat 0.25) \<and>
            moods ''sad_intensity'' = Some (PFloat 0.25)"
    unfolding analyze_mood_floats [OF assms] by simp
  with tf ef br show ?thesis by simp
qed

theorem analyze_mood_example_witness:
  "(let features = [''tempo'' \<mapsto> PFloat 180, ''rms_energy'' \<mapsto> PFloat 0.05,
                    ''spectral_centroid'' \<mapsto> PFloat 2000, ''zero_crossing_rate'' \<mapsto> PFloat 0.1]
    in tempo_factor features = Inr (PFloat 1.0) \<and>
       (case analyze_mood features of None \<Rightarrow> False
        | Some moods \<Rightarrow> moods ''energetic_intensity'' = Some (PFloat 0.75) \<and>
                        moods ''calm_intensity'' = Some (PFloat 0.25)))"
  using analyze_mood_example [of "[''tempo'' \<mapsto> PFloat 180, ''rms_energy'' \<mapsto> PFloat 0.05,
                 ''spectral_centroid'' \<mapsto> PFloat 2000, ''zero_crossing_rate'' \<mapsto> PFloat 0.1]"]
  by (auto simp: Let_def)

text \<open>
  Claim C2. Whenever the scorer returns a mood vector, its calm entry is one minus its
  energetic entry and its sad entry is one minus its happy entry.
\<close>

theorem calm_sad_complement:
  assumes "analyze_mood features = Some moods"
  shows "\<exists>energetic happy.
           moods ''energetic_intensity'' = Some (PFloat energetic) \<and>
           moods ''calm_intensity'' = Some (PFloat (1 - energetic)) \<and>
           moods ''happy_intensity'' = Some (PFloat happy) \<and>
           moods ''sad_intensity'' = Some (PFloat (1 - happy))"
proof -
  from assms have "analyze_mood_body features = Inr moods"
    by (simp add: analyze_mood_def split: sum.splits)
  then obtain x y a where "moods = moods0(''energetic_intensity'' \<mapsto> PFloat (min 1 x),
        ''happy_intensity'' \<mapsto> PFloat (min 1 y),
        ''angry_intensity'' \<mapsto> a,
        ''calm_intensity'' \<mapsto> PFloat (1 - min 1 x),
        ''sad_intensity'' \<mapsto> PFloat (1 - min 1 y))"
    using analyze_mood_body_Inr by blast
  then show ?thesis by simp
qed

theorem calm_sad_complement_witness:
  "analyze_mood [''tempo'' \<mapsto> PFloat 90, ''rms_energy'' \<mapsto> PFloat 0,
                 ''spectral_centroid'' \<mapsto> PFloat 1000, ''zero_crossing_rate'' \<mapsto> PFloat 0] =
     Some (moods0(''energetic_intensity'' \<mapsto> PFloat (1 / 4), ''happy_intensity'' \<mapsto> PFloat (3 / 8),
                  ''angry_intensity'' \<mapsto> PFloat 0, ''calm_intensity'' \<mapsto> PFloat (3 / 4),
                  ''sad_intensity'' \<mapsto> PFloat (5 / 8))) \<and>
   (\<exists>energetic happy.
      (moods0(''energetic_intensity'' \<mapsto> PFloat (1 / 4), ''happy_intensity'' \<mapsto> PFloat (3 / 8),
              ''angry_intensity'' \<mapsto> PFloat 0, ''calm_intensity'' \<mapsto> PFloat (3 / 4),
              ''sad_intensity'' \<mapsto> PFloat (5 / 8))) ''energetic_intensity'' = Some (PFloat energetic) \<and>
      (moods0(''energetic_intensity'' \<mapsto> PFloat (1 / 4), ''happy_intensity'' \<mapsto> PFloat (3 / 8),
              ''angry_intensity'' \<mapsto> PFloat 0, ''calm_intensity'' \<mapsto> PFloat (3 / 4),
              ''sad_intensity'' \<mapsto> PFloat (5 / 8))) ''calm_intensity'' = Some (PFloat (1 - energetic)) \<and>
      (moods0(''energetic_intensity'' \<mapsto> PFloat (1 / 4), ''happy_intensity'' \<mapsto> PFloat (3 / 8),
              ''angry_intensity'' \<mapsto> PFloat 0, ''calm_intensity'' \<mapsto> PFloat (3 / 4),
              ''sad_intensity'' \<mapsto> PFloat (5 / 8))) ''happy_intensity'' = Some (PFloat happy) \<and>
      (moods0(''energetic_intensity'' \<mapsto> PFloat (1 / 4), ''happy_intensity'' \<mapsto> PFloat (3 / 8),
              ''angry_intensity'' \<mapsto> PFloat 0, ''calm_intensity'' \<mapsto> PFloat (3 / 4),
              ''sad_intensity'' \<mapsto> PFloat (5 / 8))) ''sad_intensity'' = Some (PFloat (1 - happy)))"
proof -
  have a: "analyze_mood [''tempo'' \<mapsto> PFloat 90, ''rms_energy'' \<mapsto> PFloat 0,
                 ''spectral_centroid'' \<mapsto> PFloat 1000, ''zero_crossing_rate'' \<mapsto> PFloat 0] =
     Some (moods0(''energetic_intensity'' \<mapsto> PFloat (1 / 4), ''happy_intensity'' \<mapsto> PFloat (3 / 8),
                  ''angry_intensity'' \<mapsto> PFloat 0, ''calm_intensity'' \<mapsto> PFloat (3 / 4),
                  ''sad_intensity'' \<mapsto> PFloat (5 / 8)))"
    by (subst analyze_mood_floats [of _ 90 0 1000 0]) simp_all
  from a calm_sad_complement [OF a] show ?thesis by (rule conjI)
qed

text \<open>
  Claim C3. Whenever the scorer returns a mood vector, energetic and happy are at most 1.0;
  they are not bounded below by 0.0: with a negative tempo both are negative.
\<close>

theorem energetic_happy_upper_bound:
  "(\<forall>features moods. analyze_mood features = Some moods \<longrightarrow>
      (\<exists>energetic happy.
         moods ''energetic_intensity'' = Some (PFloat energetic) \<and> energetic \<le> 1 \<and>
         moods ''happy_intensity'' = Some (PFloat happy) \<and> happy \<le> 1)) \<and>
   (\<exists>features moods energetic happy.
      features ''tempo'' = Some (PFloat (- 180)) \<and>
      analyze_mood features = Some moods \<and>
      moods ''energetic_intensity'' = Some (PFloat energetic) \<and> energetic < 0 \<and>
      moods ''happy_intensity'' = Some (PFloat happy) \<and> happy < 0)"
proof (intro conjI allI impI)
  fix features moods
  assume "analyze_mood features = Some moods"
  then have "analyze_mood_body features = Inr moods"
    by (simp add: analyze_mood_def split: sum.splits)
  then obtain x y a where "moods = moods0(''energetic_intensity'' \<mapsto> PFloat (min 1 x),
        ''happy_intensity'' \<mapsto> PFloat (min 1 y),
        ''angry_intensity'' \<mapsto> a,
        ''calm_intensity'' \<mapsto> PFloat (1 - min 1 x),
        ''sad_intensity'' \<mapsto> PFloat (1 - min 1 y))"
    using analyze_mood_body_Inr by blast
  then show "\<exists>energetic happy.
         moods ''energetic_intensity'' = Some (PFloat energetic) \<and> energetic \<le> 1 \<and>
         moods ''happy_intensity'' = Some (PFloat happy) \<and> happy \<le> 1"
    by simp
next
  let ?f = "[''tempo'' \<mapsto> PFloat (- 180), ''rms_energy'' \<mapsto> PFloat 0,
             ''spectral_centroid'' \<mapsto> PFloat 0, ''zero_crossing_rate'' \<mapsto> PFloat 0]"
  have "analyze_mood ?f = Some (moods0(
      ''energetic_intensity'' \<mapsto> PFloat (min 1 ((min (- 180 / 180) 1 + 0 * 10) / 2)),
      ''happy_intensity'' \<mapsto> PFloat (min 1 ((0 / 4000 + min (- 180 / 180) 1) / 2)),
      ''angry_intensity'' \<mapsto> PFloat (min 1 (0 * 10 * 0)),
      ''calm_intensity'' \<mapsto> PFloat (1 - min 1 ((min (- 180 / 180) 1 + 0 * 10) / 2)),
      ''sad_intensity'' \<mapsto> PFloat (1 - min 1 ((0 / 4000 + min (- 180 / 180) 1) / 2))))"
    by (rule analyze_mood_floats) simp_all
  then obtain m where m: "analyze_mood ?f = Some m"
    "m ''energetic_intensity'' = Some (PFloat (- (1 / 2)))"
    "m ''happy_intensity'' = Some (PFloat (- (1 / 2)))"
    by simp
  have t: "?f ''tempo'' = Some (PFloat (- 180))" by simp
  show "\<exists>features moods energetic happy.
      features ''tempo'' = Some (PFloat (- 180)) \<and>
      analyze_mood features = Some moods \<and>
      moods ''energetic_intensity'' = Some (PFloat energetic) \<and> energetic < 0 \<and>
      moods ''happy_intensity'' = Some (PFloat happy) \<and> happy < 0"
    apply (rule exI [of _ ?f], rule exI [of _ m])
    apply (rule exI [of _ "- (1 / 2)"], rule exI [of _ "- (1 / 2)"])
    using m t apply simp
    done
qed

theorem energetic_happy_upper_bound_witness:
  "analyze_mood [''tempo'' \<mapsto> PFloat 360, ''rms_energy'' \<mapsto> PFloat 1,
                 ''spectral_centroid'' \<mapsto> PFloat 8000, ''zero_crossing_rate'' \<mapsto> PFloat 0] =
     Some (moods0(''energetic_intensity'' \<mapsto> PFloat 1, ''happy_intensity'' \<mapsto> PFloat 1,
                  ''angry_intensity'' \<mapsto> PFloat 0, ''calm_intensity'' \<mapsto> PFloat 0,
                  ''sad_intensity'' \<mapsto> PFloat 0)) \<and>
   (\<exists>energetic happy.
      (moods0(''energetic_intensity'' \<mapsto> PFloat 1, ''happy_intensity'' \<mapsto> PFloat 1,
              ''angry_intensity'' \<mapsto> PFloat 0, ''calm_intensity'' \<mapsto> PFloat 0,
              ''sad_intensity'' \<mapsto> PFloat 0)) ''energetic_intensity'' = Some (PFloat energetic) \<and>
      energetic \<le> 1 \<and>
      (moods0(''energetic_intensity'' \<mapsto> PFloat 1, ''happy_intensity'' \<mapsto> PFloat 1,
              ''angry_intensity'' \<mapsto> PFloat 0, ''calm_intensity'' \<mapsto> PFloat 0,
              ''sad_intensity'' \<mapsto> PFloat 0)) ''happy_intensity'' = Some (PFloat happy) \<and>
      happy \<le> 1)"
proof -
  have a: "analyze_mood [''tempo'' \<mapsto> PFloat 360, ''rms_energy'' \<mapsto> PFloat 1,
                 ''spectral_centroid'' \<mapsto> PFloat 8000, ''zero_crossing_rate'' \<mapsto> PFloat 0] =
     Some (moods0(''energetic_intensity'' \<mapsto> PFloat 1, ''happy_intensity'' \<mapsto> PFloat 1,
                  ''angry_intensity'' \<mapsto> PFloat 0, ''calm_intensity'' \<mapsto> PFloat 0,
                  ''sad_intensity'' \<mapsto> PFloat 0))"
    by (subst analyze_mood_floats [of _ 360 1 8000 0]) simp_all
  from energetic_happy_upper_bound have "\<forall>features moods. analyze_mood features = Some moods \<longrightarrow>
      (\<exists>energetic happy.
         moods ''energetic_intensity'' = Some (PFloat energetic) \<and> energetic \<le> 1 \<and>
         moods ''happy_intensity'' = Some (PFloat happy) \<and> happy \<le> 1)"
    by (rule conjunct1)
  with a show ?thesis by blast
qed

text \<open>
  Claim C9. The result of the scorer depends only on the values under the keys tempo,
  rms_energy, spectral_centroid and zero_crossing_rate: two feature vectors that agree on
  these four keys (present with the same value, or absent in both) get the same result.
\<close>

theorem analyze_mood_depends_on_used_keys:
  assumes "\<forall>k \<in> set used_keys. f1 k = f2 k"
  shows "analyze_mood f1 = analyze_mood f2"
proof -
  from assms have k: "f1 ''tempo'' = f2 ''tempo''" "f1 ''rms_energy'' = f2 ''rms_energy''"
    "f1 ''spectral_centroid'' = f2 ''spectral_centroid''"
    "f1 ''zero_crossing_rate'' = f2 ''zero_crossing_rate''"
    by (simp_all add: used_keys_def)
  have "tempo_factor f1 = tempo_factor f2" "energy_factor f1 = energy_factor f2"
    "brightness f1 = brightness f2"
    "getitem f1 ''zero_crossing_rate'' = getitem f2 ''zero_crossing_rate''"
    by (simp_all only: tempo_factor_def energy_factor_def brightness_def getitem_def k)
  then have "analyze_mood_body f1 = analyze_mood_body f2"
    by (simp only: analyze_mood_body_def)
  then show ?thesis by (simp only: analyze_mood_def)
qed


theorem analyze_mood_depends_on_used_keys_witness:
  "[''tempo'' \<mapsto> PFloat 90, ''rms_energy'' \<mapsto> PFloat 0, ''spectral_centroid'' \<mapsto> PFloat 1000,
    ''zero_crossing_rate'' \<mapsto> PFloat 0, ''chroma_mean'' \<mapsto> PFloat 7] ''tempo'' =
   [''tempo'' \<mapsto> PFloat 90, ''rms_energy'' \<mapsto> PFloat 0, ''spectral_centroid'' \<mapsto> PFloat 1000,
    ''zero_crossing_rate'' \<mapsto> PFloat 0, ''mfcc_0'' \<mapsto> PNone] ''tempo'' \<and>
   analyze_mood
      [''tempo'' \<mapsto> PFloat 90, ''rms_energy'' \<mapsto> PFloat 0, ''spectral_centroid'' \<mapsto> PFloat 1000,
       ''zero_crossing_rate'' \<mapsto> PFloat 0, ''chroma_mean'' \<mapsto> PFloat 7] =
   analyze_mood
      [''tempo'' \<mapsto> PFloat 90, ''rms_energy'' \<mapsto> PFloat 0, ''spectral_centroid'' \<mapsto> PFloat 1000,
       ''zero_crossing_rate'' \<mapsto> PFloat 0, ''mfcc_0'' \<mapsto> PNone]"
proof -
  have h: "\<forall>k \<in> set used_keys.
      [''tempo'' \<mapsto> PFloat 90, ''rms_energy'' \<mapsto> PFloat 0, ''spectral_centroid'' \<mapsto> PFloat 1000,
       ''zero_crossing_rate'' \<mapsto> PFloat 0, ''chroma_mean'' \<mapsto> PFloat 7] k =
      [''tempo'' \<mapsto> PFloat 90, ''rms_energy'' \<mapsto> PFloat 0, ''spectral_centroid'' \<mapsto> PFloat 1000,
       ''zero_crossing_rate'' \<mapsto> PFloat 0, ''mfcc_0'' \<mapsto> PNone] k"
    by (simp add: used_keys_def)
  have t: "[''tempo'' \<mapsto> PFloat 90, ''rms_energy'' \<mapsto> PFloat 0, ''spectral_centroid'' \<mapsto> PFloat 1000,
    ''zero_crossing_rate'' \<mapsto> PFloat 0, ''chroma_mean'' \<mapsto> PFloat 7] ''tempo'' =
   [''tempo'' \<mapsto> PFloat 90, ''rms_energy'' \<mapsto> PFloat 0, ''spectral_centroid'' \<mapsto> PFloat 1000,
    ''zero_crossing_rate'' \<mapsto> PFloat 0, ''mfcc_0'' \<mapsto> PNone] ''tempo''"
    by simp
  from t analyze_mood_depends_on_used_keys [OF h] show ?thesis by (rule conjI)
qed

lemma arith_Inr: "arith fi fr a b = Inr v \<Longrightarrow> as_real a \<noteq> None \<and> as_real b \<noteq> None"
  by (cases a; cases b) simp_all

lemma py_truediv_numeric: "py_truediv a b = Inr v \<Longrightarrow> as_real a \<noteq> None"
  by (auto simp: py_truediv_def split: option.splits)

lemma getitem_Inr: "getitem d k = Inr v \<longleftrightarrow> d k = Some v"
  by (simp add: getitem_def split: option.splits)

lemma analyze_mood_Some_numeric:
  assumes "analyze_mood features = Some moods"
  shows "\<forall>k \<in> set used_keys. \<not> absent_or_non_numeric features k"
proof -
  from assms have "analyze_mood_body features = Inr moods"
    by (simp add: analyze_mood_def split: sum.splits)
  then obtain tf ef br z p where tf: "tempo_factor features = Inr tf"
    and ef: "energy_factor features = Inr ef" and br: "brightness features = Inr br"
    and z: "getitem features ''zero_crossing_rate'' = Inr z" and p: "py_mul ef z = Inr p"
    by (rule analyze_mood_bodyE)
  from tf have 1: "\<not> absent_or_non_numeric features ''tempo''"
    unfolding tempo_factor_def
    by (elim and_then_InrE) (auto simp: getitem_Inr absent_or_non_numeric_def dest: py_truediv_numeric)
  from ef have 2: "\<not> absent_or_non_numeric features ''rms_energy''"
    unfolding energy_factor_def py_mul_def
    by (elim and_then_InrE) (auto simp: getitem_Inr absent_or_non_numeric_def dest: arith_Inr)
  from br have 3: "\<not> absent_or_non_numeric features ''spectral_centroid''"
    unfolding brightness_def
    by (elim and_then_InrE) (auto simp: getitem_Inr absent_or_non_numeric_def dest: py_truediv_numeric)
  from z p have 4: "\<not> absent_or_non_numeric features ''zero_crossing_rate''"
    unfolding py_mul_def
    by (auto simp: getitem_Inr absent_or_non_numeric_def dest: arith_Inr)
  from 1 2 3 4 show ?thesis by (simp add: used_keys_def)
qed

text \<open>
  Claim C8, as stated, fails: a feature vector that has the four keys the scorer reads, and
  none of the other required keys, gets a mood vector.
\<close>

theorem analyze_mood_missing_key_counterexample:
  "''spectral_bandwidth'' \<in> set required_keys \<and>
   absent_or_non_numeric
     [''tempo'' \<mapsto> PFloat 180, ''rms_energy'' \<mapsto> PFloat 0.05,
      ''spectral_centroid'' \<mapsto> PFloat 2000, ''zero_crossing_rate'' \<mapsto> PFloat 0.1]
     ''spectral_bandwidth'' \<and>
   analyze_mood
     [''tempo'' \<mapsto> PFloat 180, ''rms_energy'' \<mapsto> PFloat 0.05,
      ''spectral_centroid'' \<mapsto> PFloat 2000, ''zero_crossing_rate'' \<mapsto> PFloat 0.1] \<noteq> None"
proof -
  have "analyze_mood
     [''tempo'' \<mapsto> PFloat 180, ''rms_energy'' \<mapsto> PFloat 0.05,
      ''spectral_centroid'' \<mapsto> PFloat 2000, ''zero_crossing_rate'' \<mapsto> PFloat 0.1] \<noteq> None"
    by (subst analyze_mood_floats [of _ 180 "0.05" 2000 "0.1"]) simp_all
  then show ?thesis by (simp add: required_keys_def absent_or_non_numeric_def)
qed

text \<open>
  Claim C8, amended. The scorer returns the failure signal \<^verbatim>\<open>None\<close> whenever one of the
  four keys it reads (tempo, rms_energy, spectral_centroid, zero_crossing_rate) is absent or
  holds a non-numeric value; whenever these four keys hold floats it returns a mood vector,
  whatever the other keys are.
\<close>

theorem analyze_mood_failure_signal:
  "((\<exists>k \<in> set used_keys. absent_or_non_numeric features k) \<longrightarrow> analyze_mood features = None) \<and>
   ((\<forall>k \<in> set used_keys. is_float (features k)) \<longrightarrow> analyze_mood features \<noteq> None)"
proof (intro conjI impI)
  assume "\<exists>k \<in> set used_keys. absent_or_non_numeric features k"
  then show "analyze_mood features = None"
    using analyze_mood_Some_numeric [of features] by (cases "analyze_mood features") auto
next
  assume a: "\<forall>k \<in> set used_keys. is_float (features k)"
  then obtain t r c z where "features ''tempo'' = Some (PFloat t)"
    "features ''rms_energy'' = Some (PFloat r)" "features ''spectral_centroid'' = Some (PFloat c)"
    "features ''zero_crossing_rate'' = Some (PFloat z)"
    by (auto simp: used_keys_def is_float_def split: option.splits pyval.splits)
  then show "analyze_mood features \<noteq> None"
    by (simp add: analyze_mood_floats)
qed

theorem analyze_mood_failure_signal_witness:
  "absent_or_non_numeric
       [''tempo'' \<mapsto> PNone, ''rms_energy'' \<mapsto> PFloat 0.05, ''spectral_centroid'' \<mapsto> PFloat 2000]
       ''tempo'' \<and>
   absent_or_non_numeric
       [''tempo'' \<mapsto> PNone, ''rms_energy'' \<mapsto> PFloat 0.05, ''spectral_centroid'' \<mapsto> PFloat 2000]
       ''zero_crossing_rate'' \<and>
   analyze_mood [''tempo'' \<mapsto> PNone, ''rms_energy'' \<mapsto> PFloat 0.05,
                 ''spectral_centroid'' \<mapsto> PFloat 2000] = None \<and>
   is_float ([''tempo'' \<mapsto> PFloat 180, ''rms_energy'' \<mapsto> PFloat 0.05,
         ''spectral_centroid'' \<mapsto> PFloat 2000, ''zero_crossing_rate'' \<mapsto> PFloat 0.1] ''tempo'') \<and>
   analyze_mood [''tempo'' \<mapsto> PFloat 180, ''rms_energy'' \<mapsto> PFloat 0.05,
                 ''spectral_centroid'' \<mapsto> PFloat 2000, ''zero_crossing_rate'' \<mapsto> PFloat 0.1] \<noteq> None"
proof -
  have a: "absent_or_non_numeric
       [''tempo'' \<mapsto> PNone, ''rms_energy'' \<mapsto> PFloat 0.05, ''spectral_centroid'' \<mapsto> PFloat 2000]
       ''tempo''"
    "absent_or_non_numeric
       [''tempo'' \<mapsto> PNone, ''rms_energy'' \<mapsto> PFloat 0.05, ''spectral_centroid'' \<mapsto> PFloat 2000]
       ''zero_crossing_rate''"
    by (simp_all add: absent_or_non_numeric_def)
  then have a': "\<exists>k \<in> set used_keys. absent_or_non_numeric
       [''tempo'' \<mapsto> PNone, ''rms_energy'' \<mapsto> PFloat 0.05, ''spectral_centroid'' \<mapsto> PFloat 2000] k"
    by (simp add: used_keys_def)
  have b: "\<forall>k \<in> set used_keys. is_float
       ([''tempo'' \<mapsto> PFloat 180, ''rms_energy'' \<mapsto> PFloat 0.05,
         ''spectral_centroid'' \<mapsto> PFloat 2000, ''zero_crossing_rate'' \<mapsto> PFloat 0.1] k)"
    by (simp add: used_keys_def is_float_def)
  have c: "is_float ([''tempo'' \<mapsto> PFloat 180, ''rms_energy'' \<mapsto> PFloat 0.05,
         ''spectral_centroid'' \<mapsto> PFloat 2000, ''zero_crossing_rate'' \<mapsto> PFloat 0.1] ''tempo'')"
    by (simp add: is_float_def)
  from a a' b c
    analyze_mood_failure_signal [of "[''tempo'' \<mapsto> PNone, ''rms_energy'' \<mapsto> PFloat 0.05,
       ''spectral_centroid'' \<mapsto> PFloat 2000]"]
    analyze_mood_failure_signal [of "[''tempo'' \<mapsto> PFloat 180, ''rms_energy'' \<mapsto> PFloat 0.05,
       ''spectral_centroid'' \<mapsto> PFloat 2000, ''zero_crossing_rate'' \<mapsto> PFloat 0.1]"]
  show ?thesis by blast
qed

section \<open>Properties of the path rule\<close>

declare str_nat.simps [simp del]

lemma str_nat_lt10: "n < 10 \<Longrightarrow> str_nat n = [digit_char n]"
  by (subst str_nat.simps) simp

lemma str_nat_ge10: "10 \<le> n \<Longrightarrow> str_nat n = str_nat (n div 10) @ [digit_char (n mod 10)]"
  by (subst str_nat.simps) simp

lemma replicate_num: "replicate (numeral k) x = x # replicate (pred_numeral k) x"
  by (simp add: numeral_eq_Suc)

lemmas path_eval = get_audio_path_def str_int_def str_nat_lt10 str_nat_ge10 digit_char_def
  zfill_def Let_def replicate_num

lemma digit_char_cases:
  assumes "d < (10::nat)"
  shows "d \<in> {0, 1, 2, 3, 4, 5, 6, 7, 8, 9}"
  using assms by auto

lemma is_digit_digit_char: "d < 10 \<Longrightarrow> is_digit (digit_char d)"
  by (drule digit_char_cases) (auto simp: is_digit_def digit_char_def)

lemma digit_val_digit_char: "d < 10 \<Longrightarrow> digit_val (digit_char d) = d"
  by (drule digit_char_cases) (auto simp: digit_val_def digit_char_def)

lemma str_nat_digits: "list_all is_digit (str_nat n)"
proof (induction n rule: str_nat.induct)
  case (1 n)
  show ?case
  proof (cases "n < 10")
    case True
    then show ?thesis by (simp add: str_nat_lt10 is_digit_digit_char)
  next
    case False
    with 1 show ?thesis by (simp add: str_nat_ge10 is_digit_digit_char)
  qed
qed

lemma str_nat_nonempty: "str_nat n \<noteq> []"
  by (cases "n < 10") (simp_all add: str_nat_lt10 str_nat_ge10)

lemma length_str_nat: "n < 10 ^ Suc k \<Longrightarrow> length (str_nat n) \<le> Suc k"
proof (induction k arbitrary: n)
  case 0
  then show ?case by (simp add: str_nat_lt10)
next
  case (Suc k)
  show ?case
  proof (cases "n < 10")
    case True
    then show ?thesis by (simp add: str_nat_lt10)
  next
    case False
    from Suc.prems have "n div 10 < 10 ^ Suc k" by (simp add: less_mult_imp_div_less mult.commute)
    from Suc.IH [OF this] False show ?thesis by (simp add: str_nat_ge10)
  qed
qed

lemma decimal_value_snoc: "decimal_value (s @ [c]) = 10 * decimal_value s + digit_val c"
  by (simp add: decimal_value_def)

lemma decimal_value_str_nat: "decimal_value (str_nat n) = n"
proof (induction n rule: str_nat.induct)
  case (1 n)
  show ?case
  proof (cases "n < 10")
    case True
    then show ?thesis by (simp add: str_nat_lt10 decimal_value_def digit_val_digit_char)
  next
    case False
    with 1 show ?thesis by (simp add: str_nat_ge10 decimal_value_snoc digit_val_digit_char)
  qed
qed

lemma decimal_value_zeros: "decimal_value (replicate k CHR ''0'' @ s) = decimal_value s"
proof -
  have "foldl (\<lambda>acc c. 10 * acc + digit_val c) 0 (replicate k CHR ''0'') = 0"
    by (induction k) (simp_all add: digit_val_def)
  then show ?thesis by (simp add: decimal_value_def)
qed


lemma is_digit_not_special: "is_digit c \<Longrightarrow> c \<noteq> CHR ''/'' \<and> c \<noteq> CHR ''+'' \<and> c \<noteq> CHR ''-''"
  by (auto simp: is_digit_def)

lemma str_int_chars: "\<forall>c \<in> set (str_int i). c \<noteq> CHR ''/''"
  using str_nat_digits [of "nat i"] str_nat_digits [of "nat (- i)"]
  by (auto simp: str_int_def list_all_iff dest: is_digit_not_special)

lemma str_int_nonempty: "str_int i \<noteq> []"
  by (simp add: str_int_def str_nat_nonempty)

lemma zfill_chars: "set (zfill s w) \<subseteq> set s \<union> {CHR ''0''}"
  by (auto simp: zfill_def Let_def split: list.splits if_splits)

lemma zfill_length: "length (zfill s w) = max w (length s)"
  by (auto simp: zfill_def Let_def split: list.splits)

lemma zfill_digits:
  assumes "list_all is_digit s" and "s \<noteq> []"
  shows "zfill s w = replicate (w - length s) CHR ''0'' @ s"
proof (cases s)
  case Nil
  with assms show ?thesis by simp
next
  case (Cons c rest)
  with assms have "c \<noteq> CHR ''+''" "c \<noteq> CHR ''-''"
    by (auto dest: is_digit_not_special)
  with Cons show ?thesis by (simp add: zfill_def Let_def)
qed

lemma path_join_tid:
  assumes "s \<noteq> []" and "\<forall>c \<in> set s. c \<noteq> CHR ''/''"
  shows "path_join ''dataset'' [''fma_small'', take 3 s, s @ ''.mp3''] =
         ''dataset/fma_small/'' @ take 3 s @ ''/'' @ s @ ''.mp3''"
proof -
  obtain c rest where s: "s = c # rest" using assms(1) by (cases s) auto
  with assms(2) have c: "c \<noteq> CHR ''/''" by simp
  have t: "take 3 s \<noteq> []" using s by simp
  have "last (take 3 s) \<in> set s" using t by (metis in_set_takeD last_in_set)
  with assms(2) have l: "last (take 3 s) \<noteq> CHR ''/''" by blast
  have "last (''dataset/fma_small/'' @ take 3 s) \<noteq> CHR ''/''"
    using t l by simp
  then show ?thesis using c s by (simp add: numeral_3_eq_3)
qed

lemma get_audio_path_shape:
  "get_audio_path tid =
     ''dataset/fma_small/'' @ take 3 (zfill (str_int tid) 6) @ ''/'' @
     zfill (str_int tid) 6 @ ''.mp3''"
proof -
  have "zfill (str_int tid) 6 \<noteq> []"
    using zfill_length [of "str_int tid" 6] by auto
  moreover have "\<forall>c \<in> set (zfill (str_int tid) 6). c \<noteq> CHR ''/''"
    using zfill_chars [of "str_int tid" 6] str_int_chars [of tid] by auto
  ultimately show ?thesis
    unfolding get_audio_path_def Let_def by (rule path_join_tid)
qed

lemma tid_str_six_digits:
  assumes "0 \<le> tid" and "tid < 1000000"
  shows "length (zfill (str_int tid) 6) = 6 \<and>
         list_all is_digit (zfill (str_int tid) 6) \<and>
         int (decimal_value (zfill (str_int tid) 6)) = tid"
proof -
  let ?n = "nat tid"
  have s: "str_int tid = str_nat ?n" using assms(1) by (simp add: str_int_def)
  have "?n < 10 ^ Suc 5" using assms by simp
  then have len: "length (str_nat ?n) \<le> 6" by (rule length_str_nat [THEN order_trans]) simp
  have z: "zfill (str_nat ?n) 6 = replicate (6 - length (str_nat ?n)) CHR ''0'' @ str_nat ?n"
    by (rule zfill_digits [OF str_nat_digits str_nat_nonempty])
  have zero: "is_digit CHR ''0''" by (simp add: is_digit_def)
  have 1: "length (zfill (str_nat ?n) 6) = 6" using len by (simp add: zfill_length)
  have 2: "list_all is_digit (zfill (str_nat ?n) 6)"
    unfolding z using str_nat_digits [of ?n] zero by (auto simp: list_all_iff)
  have 3: "int (decimal_value (zfill (str_nat ?n) 6)) = tid"
    unfolding z using assms(1) by (simp add: decimal_value_zeros decimal_value_str_nat)
  from 1 2 3 show ?thesis unfolding s by simp
qed

text \<open>
  Claim C4, amended. For every integer id, the path is
  \<^verbatim>\<open>dataset/fma_small/<first three characters of s>/<s>.mp3\<close>, where \<open>s\<close> is
  \<^verbatim>\<open>str(id).zfill(6)\<close> and has at least six characters; for an id from 0 to 999999,
  \<open>s\<close> is the six-digit zero-padded decimal string of the id. Id 42 maps to
  \<^verbatim>\<open>dataset/fma_small/000/000042.mp3\<close> and id 123456 to
  \<^verbatim>\<open>dataset/fma_small/123/123456.mp3\<close>.
\<close>

theorem get_audio_path_layout:
  "get_audio_path tid =
     ''dataset/fma_small/'' @ take 3 (zfill (str_int tid) 6) @ ''/'' @
     zfill (str_int tid) 6 @ ''.mp3'' \<and>
   6 \<le> length (zfill (str_int tid) 6) \<and>
   (0 \<le> tid \<and> tid < 1000000 \<longrightarrow>
      length (zfill (str_int tid) 6) = 6 \<and>
      list_all is_digit (zfill (str_int tid) 6) \<and>
      int (decimal_value (zfill (str_int tid) 6)) = tid) \<and>
   get_audio_path 42 = ''dataset/fma_small/000/000042.mp3'' \<and>
   get_audio_path 123456 = ''dataset/fma_small/123/123456.mp3''"
proof -
  have a: "6 \<le> length (zfill (str_int tid) 6)" by (simp add: zfill_length)
  have b: "get_audio_path 42 = ''dataset/fma_small/000/000042.mp3''"
    by (simp add: path_eval)
  have c: "get_audio_path 123456 = ''dataset/fma_small/123/123456.mp3''"
    by (simp add: path_eval)
  from get_audio_path_shape [of tid] a tid_str_six_digits [of tid] b c
  show ?thesis by blast
qed

theorem get_audio_path_layout_witness:
  "(0::int) \<le> 7 \<and> (7::int) < 1000000 \<and>
   get_audio_path 7 = ''dataset/fma_small/000/000007.mp3'' \<and>
   zfill (str_int 7) 6 = ''000007'' \<and>
   length (zfill (str_int 7) 6) = 6 \<and>
   list_all is_digit (zfill (str_int 7) 6) \<and>
   int (decimal_value (zfill (str_int 7) 6)) = 7"
proof -
  have z: "zfill (str_int 7) 6 = ''000007''" by (simp add: path_eval)
  have p: "get_audio_path 7 = ''dataset/fma_small/000/000007.mp3''" by (simp add: path_eval)
  from z p get_audio_path_layout [of 7] show ?thesis by simp
qed

text \<open>
  Claim C4, as stated for every track id, fails: the string of an id of seven digits is
  not cut to six digits.
\<close>

theorem get_audio_path_seven_digits_counterexample:
  "length (zfill (str_int 1234567) 6) = 7 \<and>
   get_audio_path 1234567 = ''dataset/fma_small/123/1234567.mp3''"
  by (simp add: path_eval)

section \<open>Properties of the store and of the batch processor\<close>

lemma foldr_max_ge: "seq \<le> foldr max (map mood_id rows) seq \<and> (\<forall>r \<in> set rows. mood_id r \<le> foldr max (map mood_id rows) seq)"
  by (induction rows) auto

lemma next_mood_id_fresh: "mood_id r = next_mood_id rows seq \<Longrightarrow> r \<notin> set rows"
  using foldr_max_ge [of seq rows] by (auto simp: next_mood_id_def)

lemma next_mood_id_gt_seq: "seq < next_mood_id rows seq"
  using foldr_max_ge [of seq rows] by (simp add: next_mood_id_def)

lemma next_mood_id_gt: "r \<in> set rows \<Longrightarrow> mood_id r < next_mood_id rows seq"
  using foldr_max_ge [of seq rows] by (auto simp: next_mood_id_def)

lemma insert_or_replace_song_Some:
  "songs db = Some rows \<Longrightarrow>
   insert_or_replace_song r db =
     Inr (db\<lparr>songs := Some (filter (\<lambda>x. song_track_id x \<noteq> song_track_id r) rows @ [r])\<rparr>)"
  by (simp add: insert_or_replace_song_def)

lemma insert_mood_Some:
  "mood_analysis db = Some rows \<Longrightarrow>
   insert_mood (tid, h, sa, en, c, an) db =
     Inr (db\<lparr>mood_analysis := Some (rows @
            [\<lparr>mood_id = next_mood_id rows (mood_seq db), mood_track_id = tid, happy_intensity = h,
              sad_intensity = sa, energetic_intensity = en, calm_intensity = c,
              angry_intensity = an\<rparr>]),
          mood_seq := next_mood_id rows (mood_seq db)\<rparr>)"
  by (simp add: insert_mood_def Let_def)

text \<open>
  Claim C7. On a database that has the two tables: writing two songs rows with the same
  track id, one after the other, leaves exactly one songs row with that id, the second
  one written; writing two mood_analysis rows with the same track id appends two rows
  with different ids, both new, each holding the values it was written with.
\<close>

theorem upsert_semantics:
  "(songs db = Some rows \<and> song_track_id r1 = song_track_id r2 \<longrightarrow>
      (\<exists>db1 db2 rows2.
         insert_or_replace_song r1 db = Inr db1 \<and> insert_or_replace_song r2 db1 = Inr db2 \<and>
         songs db2 = Some rows2 \<and>
         filter (\<lambda>x. song_track_id x = song_track_id r2) rows2 = [r2])) \<and>
   (mood_analysis db = Some mrows \<longrightarrow>
      (\<exists>db1 db2 m1 m2.
         insert_mood (tid, h1, s1, e1, c1, a1) db = Inr db1 \<and>
         insert_mood (tid, h2, s2, e2, c2, a2) db1 = Inr db2 \<and>
         mood_analysis db2 = Some (mrows @ [m1, m2]) \<and>
         mood_track_id m1 = tid \<and> mood_track_id m2 = tid \<and>
         mood_id m1 \<noteq> mood_id m2 \<and> m1 \<notin> set mrows \<and> m2 \<notin> set mrows \<and>
         (happy_intensity m1, sad_intensity m1, energetic_intensity m1, calm_intensity m1,
          angry_intensity m1) = (h1, s1, e1, c1, a1) \<and>
         (happy_intensity m2, sad_intensity m2, energetic_intensity m2, calm_intensity m2,
          angry_intensity m2) = (h2, s2, e2, c2, a2)))"
proof (intro conjI impI)
  assume a: "songs db = Some rows \<and> song_track_id r1 = song_track_id r2"
  let ?rows1 = "filter (\<lambda>x. song_track_id x \<noteq> song_track_id r1) rows @ [r1]"
  let ?db1 = "db\<lparr>songs := Some ?rows1\<rparr>"
  let ?rows2 = "filter (\<lambda>x. song_track_id x \<noteq> song_track_id r2) ?rows1 @ [r2]"
  let ?db2 = "?db1\<lparr>songs := Some ?rows2\<rparr>"
  from a have 1: "insert_or_replace_song r1 db = Inr ?db1"
    by (simp add: insert_or_replace_song_Some)
  have 2: "insert_or_replace_song r2 ?db1 = Inr ?db2"
    by (simp add: insert_or_replace_song_Some)
  have 3: "songs ?db2 = Some ?rows2" by simp
  have 4: "filter (\<lambda>x. song_track_id x = song_track_id r2) ?rows2 = [r2]"
    by (simp add: filter_empty_conv)
  from 1 2 3 4 show "\<exists>db1 db2 rows2.
         insert_or_replace_song r1 db = Inr db1 \<and> insert_or_replace_song r2 db1 = Inr db2 \<and>
         songs db2 = Some rows2 \<and>
         filter (\<lambda>x. song_track_id x = song_track_id r2) rows2 = [r2]"
    by blast
next
  assume a: "mood_analysis db = Some mrows"
  let ?id1 = "next_mood_id mrows (mood_seq db)"
  let ?m1 = "\<lparr>mood_id = ?id1, mood_track_id = tid, happy_intensity = h1,
              sad_intensity = s1, energetic_intensity = e1, calm_intensity = c1,
              angry_intensity = a1\<rparr>"
  let ?db1 = "db\<lparr>mood_analysis := Some (mrows @ [?m1]), mood_seq := ?id1\<rparr>"
  let ?id2 = "next_mood_id (mrows @ [?m1]) ?id1"
  let ?m2 = "\<lparr>mood_id = ?id2, mood_track_id = tid, happy_intensity = h2,
              sad_intensity = s2, energetic_intensity = e2, calm_intensity = c2,
              angry_intensity = a2\<rparr>"
  let ?db2 = "?db1\<lparr>mood_analysis := Some ((mrows @ [?m1]) @ [?m2]), mood_seq := ?id2\<rparr>"
  from a have 1: "insert_mood (tid, h1, s1, e1, c1, a1) db = Inr ?db1"
    by (rule insert_mood_Some)
  have 2: "insert_mood (tid, h2, s2, e2, c2, a2) ?db1 = Inr ?db2"
    by (simp add: insert_mood_Some)
  have 3: "mood_analysis ?db2 = Some (mrows @ [?m1, ?m2])" by simp
  have 4: "?m1 \<notin> set mrows" by (rule next_mood_id_fresh) simp
  have "?m2 \<notin> set (mrows @ [?m1])" by (rule next_mood_id_fresh) simp
  then have 5: "?m2 \<notin> set mrows" by simp
  have "?id1 < ?id2" by (rule next_mood_id_gt_seq)
  then have 6: "mood_id ?m1 \<noteq> mood_id ?m2" by simp
  show "\<exists>db1 db2 m1 m2.
         insert_mood (tid, h1, s1, e1, c1, a1) db = Inr db1 \<and>
         insert_mood (tid, h2, s2, e2, c2, a2) db1 = Inr db2 \<and>
         mood_analysis db2 = Some (mrows @ [m1, m2]) \<and>
         mood_track_id m1 = tid \<and> mood_track_id m2 = tid \<and>
         mood_id m1 \<noteq> mood_id m2 \<and> m1 \<notin> set mrows \<and> m2 \<notin> set mrows \<and>
         (happy_intensity m1, sad_intensity m1, energetic_intensity m1, calm_intensity m1,
          angry_intensity m1) = (h1, s1, e1, c1, a1) \<and>
         (happy_intensity m2, sad_intensity m2, energetic_intensity m2, calm_intensity m2,
          angry_intensity m2) = (h2, s2, e2, c2, a2)"
    apply (rule exI [of _ ?db1], rule exI [of _ ?db2], rule exI [of _ ?m1], rule exI [of _ ?m2])
    using 1 2 3 4 5 6 apply simp
    done
qed


theorem upsert_semantics_witness:
  "songs \<lparr>songs = Some [\<lparr>song_track_id = 2, song_title = ''a'', song_artist = ''b'',
                            song_album = ''c'', song_file_path = ''d''\<rparr>],
            mood_analysis = Some [], mood_seq = 0\<rparr> =
     Some [\<lparr>song_track_id = 2, song_title = ''a'', song_artist = ''b'',
             song_album = ''c'', song_file_path = ''d''\<rparr>] \<and>
   mood_analysis \<lparr>songs = Some [\<lparr>song_track_id = 2, song_title = ''a'', song_artist = ''b'',
                            song_album = ''c'', song_file_path = ''d''\<rparr>],
            mood_analysis = Some [], mood_seq = 0\<rparr> = Some [] \<and>
   (\<exists>db1 db2.
      insert_or_replace_song
        \<lparr>song_track_id = 2, song_title = ''e'', song_artist = ''b'', song_album = ''c'',
         song_file_path = ''d''\<rparr>
        \<lparr>songs = Some [\<lparr>song_track_id = 2, song_title = ''a'', song_artist = ''b'',
                            song_album = ''c'', song_file_path = ''d''\<rparr>],
            mood_analysis = Some [], mood_seq = 0\<rparr> = Inr db1 \<and>
      insert_or_replace_song
        \<lparr>song_track_id = 2, song_title = ''f'', song_artist = ''b'', song_album = ''c'',
         song_file_path = ''d''\<rparr> db1 = Inr db2 \<and>
      songs db2 = Some [\<lparr>song_track_id = 2, song_title = ''f'', song_artist = ''b'',
                         song_album = ''c'', song_file_path = ''d''\<rparr>]) \<and>
   (\<exists>db1 db2 m1 m2.
      insert_mood (2, 1, 0, 1, 0, 0)
        \<lparr>songs = Some [\<lparr>song_track_id = 2, song_title = ''a'', song_artist = ''b'',
                            song_album = ''c'', song_file_path = ''d''\<rparr>],
            mood_analysis = Some [], mood_seq = 0\<rparr> = Inr db1 \<and>
      insert_mood (2, 0, 1, 0, 1, 0) db1 = Inr db2 \<and>
      mood_analysis db2 = Some [m1, m2] \<and> mood_id m1 \<noteq> mood_id m2 \<and>
      mood_track_id m1 = 2 \<and> mood_track_id m2 = 2)"
proof -
  let ?r0 = "\<lparr>song_track_id = 2, song_title = ''a'', song_artist = ''b'',
              song_album = ''c'', song_file_path = ''d''\<rparr>"
  let ?r1 = "\<lparr>song_track_id = 2, song_title = ''e'', song_artist = ''b'', song_album = ''c'',
         song_file_path = ''d''\<rparr>"
  let ?r2 = "\<lparr>song_track_id = 2, song_title = ''f'', song_artist = ''b'', song_album = ''c'',
         song_file_path = ''d''\<rparr>"
  let ?db = "\<lparr>songs = Some [?r0], mood_analysis = Some [], mood_seq = 0\<rparr>"
  have a: "songs ?db = Some [?r0] \<and> song_track_id ?r1 = song_track_id ?r2" by simp
  have b: "mood_analysis ?db = Some []" by simp
  note u = upsert_semantics [of ?db "[?r0]" ?r1 ?r2 "[]" 2 1 0 1 0 0 0 1 0 1 0]
  from u a obtain db1 db2 rows2 where
    s: "insert_or_replace_song ?r1 ?db = Inr db1" "insert_or_replace_song ?r2 db1 = Inr db2"
       "songs db2 = Some rows2"
    by blast
  from s have s3: "songs db2 = Some [?r2]" by (auto simp: insert_or_replace_song_def)
  from u b obtain dc1 dc2 m1 m2 where
    m: "insert_mood (2, 1, 0, 1, 0, 0) ?db = Inr dc1" "insert_mood (2, 0, 1, 0, 1, 0) dc1 = Inr dc2"
       "mood_analysis dc2 = Some ([] @ [m1, m2])" "mood_track_id m1 = 2" "mood_track_id m2 = 2"
       "mood_id m1 \<noteq> mood_id m2"
    by blast
  from a b s(1,2) s3 m show ?thesis by auto
qed

text \<open>
  Claim C6. When the metadata file cannot be read, \<^verbatim>\<open>load_all_tracks\<close> returns the empty
  list; on an empty list \<^verbatim>\<open>process_and_store\<close> prints that no tracks were found and
  returns without an exception, with the database and the open transaction as they were.
\<close>

theorem catalog_failure:
  "(read_csv e = Inl exc \<longrightarrow> load_all_tracks e = []) \<and>
   (load_all_tracks e = [] \<longrightarrow>
      process_and_store e batch_size db =
        (None, \<lparr>disk = db, view = db, processed_count = 0, error_count = 0,
                console = [''Loading tracks metadata...'', ''No tracks found!'']\<rparr>))"
  by (simp add: load_all_tracks_def process_and_store_def print_def Let_def)

theorem catalog_failure_witness:
  "read_csv \<lparr>read_csv = Inl FileNotFoundError, path_exists = (\<lambda>p. True),
             extract_mood_features = (\<lambda>p. None)\<rparr> = Inl FileNotFoundError \<and>
   load_all_tracks \<lparr>read_csv = Inl FileNotFoundError, path_exists = (\<lambda>p. True),
                    extract_mood_features = (\<lambda>p. None)\<rparr> = [] \<and>
   process_and_store \<lparr>read_csv = Inl FileNotFoundError, path_exists = (\<lambda>p. True),
                      extract_mood_features = (\<lambda>p. None)\<rparr> 100
       \<lparr>songs = Some [], mood_analysis = Some [], mood_seq = 0\<rparr> =
     (None, \<lparr>disk = \<lparr>songs = Some [], mood_analysis = Some [], mood_seq = 0\<rparr>,
             view = \<lparr>songs = Some [], mood_analysis = Some [], mood_seq = 0\<rparr>,
             processed_count = 0, error_count = 0,
             console = [''Loading tracks metadata...'', ''No tracks found!'']\<rparr>)"
proof -
  have r: "read_csv \<lparr>read_csv = Inl FileNotFoundError, path_exists = (\<lambda>p. True),
             extract_mood_features = (\<lambda>p. None)\<rparr> = Inl FileNotFoundError"
    by simp
  from r catalog_failure [of "\<lparr>read_csv = Inl FileNotFoundError, path_exists = (\<lambda>p. True),
             extract_mood_features = (\<lambda>p. None)\<rparr>" FileNotFoundError 100
             "\<lparr>songs = Some [], mood_analysis = Some [], mood_seq = 0\<rparr>"]
  show ?thesis by blast
qed

lemma py_min_numeric: "py_min a b = Inr v \<Longrightarrow> as_real v \<noteq> None"
  by (auto simp: py_min_def py_lt_def and_then_def split: option.splits if_splits)

lemma analyze_mood_angry_numeric:
  assumes "analyze_mood_body features = Inr m"
  shows "\<exists>a. m ''angry_intensity'' = Some a \<and> as_real a \<noteq> None"
proof -
  from assms obtain energetic happy p angry calm sad where
    a: "py_min (PFloat 1) p = Inr angry"
    and m: "moods0(''energetic_intensity'' \<mapsto> energetic, ''happy_intensity'' \<mapsto> happy,
           ''angry_intensity'' \<mapsto> angry, ''calm_intensity'' \<mapsto> calm, ''sad_intensity'' \<mapsto> sad) = m"
    by (rule analyze_mood_bodyE)
  from m have "m ''angry_intensity'' = Some angry" by auto
  with a show ?thesis by (auto dest: py_min_numeric)
qed

lemma float_param: "m k = Some v \<Longrightarrow> as_real v = Some x \<Longrightarrow> and_then (getitem m k) py_float = Inr x"
  by (simp add: getitem_def py_float_def)

lemma mood_params_ok:
  assumes "analyze_mood features = Some moods"
  shows "\<exists>h sa en c an. mood_params t moods = Inr (track_id t, h, sa, en, c, an)"
proof -
  from assms have b: "analyze_mood_body features = Inr moods"
    by (simp add: analyze_mood_def split: sum.splits)
  then obtain x y a where m: "moods = moods0(''energetic_intensity'' \<mapsto> PFloat (min 1 x),
        ''happy_intensity'' \<mapsto> PFloat (min 1 y),
        ''angry_intensity'' \<mapsto> a,
        ''calm_intensity'' \<mapsto> PFloat (1 - min 1 x),
        ''sad_intensity'' \<mapsto> PFloat (1 - min 1 y))"
    using analyze_mood_body_Inr by blast
  from b obtain a' an where a: "moods ''angry_intensity'' = Some a'" "as_real a' = Some an"
    using analyze_mood_angry_numeric by fastforce
  have 1: "and_then (getitem moods ''happy_intensity'') py_float = Inr (min 1 y)"
    by (rule float_param [where v = "PFloat (min 1 y)"]) (simp_all add: m)
  have 2: "and_then (getitem moods ''sad_intensity'') py_float = Inr (1 - min 1 y)"
    by (rule float_param [where v = "PFloat (1 - min 1 y)"]) (simp_all add: m)
  have 3: "and_then (getitem moods ''energetic_intensity'') py_float = Inr (min 1 x)"
    by (rule float_param [where v = "PFloat (min 1 x)"]) (simp_all add: m)
  have 4: "and_then (getitem moods ''calm_intensity'') py_float = Inr (1 - min 1 x)"
    by (rule float_param [where v = "PFloat (1 - min 1 x)"]) (simp_all add: m)
  have 5: "and_then (getitem moods ''angry_intensity'') py_float = Inr an"
    using a by (rule float_param)
  show ?thesis unfolding mood_params_def 1 2 3 4 5 by simp
qed

lemma process_track_fails:
  "fails_scoring e t \<Longrightarrow> process_track e t s = s\<lparr>error_count := error_count s + 1\<rparr>"
  by (simp add: fails_scoring_def process_track_def split: option.splits)

lemma process_track_scores:
  assumes "scores e t" and "songs (view s) = Some srows" and "mood_analysis (view s) = Some mrows"
  shows "\<exists>r. row_matches e t r \<and> mood_id r = next_mood_id mrows (mood_seq (view s)) \<and>
     process_track e t s =
       s\<lparr>view := (view s)\<lparr>songs := Some (filter (\<lambda>x. song_track_id x \<noteq> track_id t) srows @ [song_of t]),
                         mood_analysis := Some (mrows @ [r]), mood_seq := mood_id r\<rparr>,
         processed_count := processed_count s + 1\<rparr>"
proof -
  from assms(1) obtain features moods where
    f: "extract_mood_features e (file_path t) = Some features"
    and m: "analyze_mood features = Some moods"
    by (auto simp: scores_def split: option.splits)
  from mood_params_ok [OF m] obtain h sa en c an where
    p: "mood_params t moods = Inr (track_id t, h, sa, en, c, an)" by blast
  let ?r = "\<lparr>mood_id = next_mood_id mrows (mood_seq (view s)), mood_track_id = track_id t,
             happy_intensity = h, sad_intensity = sa, energetic_intensity = en,
             calm_intensity = c, angry_intensity = an\<rparr>"
  let ?db1 = "(view s)\<lparr>songs := Some (filter (\<lambda>x. song_track_id x \<noteq> track_id t) srows @ [song_of t])\<rparr>"
  have 1: "insert_or_replace_song (song_of t) (view s) = Inr ?db1"
    using assms(2) by (simp add: insert_or_replace_song_Some song_of_def)
  have 2: "insert_mood (track_id t, h, sa, en, c, an) ?db1 =
      Inr (?db1\<lparr>mood_analysis := Some (mrows @ [?r]), mood_seq := mood_id ?r\<rparr>)"
    using assms(3) by (simp add: insert_mood_Some)
  have 3: "row_matches e t ?r" by (simp add: row_matches_def f m p)
  have 4: "process_track e t s =
       s\<lparr>view := (view s)\<lparr>songs := Some (filter (\<lambda>x. song_track_id x \<noteq> track_id t) srows @ [song_of t]),
                         mood_analysis := Some (mrows @ [?r]), mood_seq := mood_id ?r\<rparr>,
         processed_count := processed_count s + 1\<rparr>"
    unfolding process_track_def by (simp add: f m 1 p 2)
  from 3 4 show ?thesis by (intro exI [of _ ?r]) simp
qed

declare batch_loop.simps [simp del]

lemma process_batch_Nil [simp]: "process_batch e [] s = s"
  by (simp add: process_batch_def)

lemma process_batch_Cons [simp]:
  "process_batch e (t # ts) s = process_batch e ts (process_track e t s)"
  by (simp add: process_batch_def)

lemma process_batch_append:
  "process_batch e (xs @ ys) s = process_batch e ys (process_batch e xs s)"
  by (simp add: process_batch_def)

lemma core_process_track:
  "core s = core s' \<Longrightarrow> core (process_track e t s) = core (process_track e t s')"
  by (auto simp: core_def process_track_def split: option.splits sum.splits)

lemma core_process_batch:
  "core s = core s' \<Longrightarrow> core (process_batch e ts s) = core (process_batch e ts s')"
proof (induction ts arbitrary: s s')
  case Nil
  then show ?case by simp
next
  case (Cons t ts)
  from Cons.prems have "core (process_track e t s) = core (process_track e t s')"
    by (rule core_process_track)
  then have "core (process_batch e ts (process_track e t s)) =
      core (process_batch e ts (process_track e t s'))"
    by (rule Cons.IH)
  then show ?case by simp
qed

lemma core_print [simp]: "core (print line s) = core s"
  by (simp add: core_def print_def)

lemma core_commit [simp]: "core (commit s) = core s"
  by (simp add: core_def commit_def)

lemma batch_loop_done: "length tracks \<le> i \<Longrightarrow> batch_loop e tracks bs i s = s"
  by (subst batch_loop.simps) simp

lemma batch_loop_step:
  "0 < bs \<Longrightarrow> i < length tracks \<Longrightarrow>
   batch_loop e tracks bs i s =
     batch_loop e tracks bs (i + bs)
       (print (progress_line (commit (process_batch e (take bs (drop i tracks))
                 (print (batch_header i bs (length tracks)) s))) (length tracks))
          (commit (process_batch e (take bs (drop i tracks))
                 (print (batch_header i bs (length tracks)) s))))"
  by (subst batch_loop.simps) (simp add: Let_def)

lemma take_drop_next: "take n (drop i xs) @ drop (i + n) xs = drop i xs"
proof -
  have "drop (i + n) xs = drop n (drop i xs)" by (simp add: ac_simps)
  then show ?thesis by (simp only: append_take_drop_id)
qed

lemma core_batch_loop:
  assumes "0 < bs"
  shows "core (batch_loop e tracks bs i s) = core (process_batch e (drop i tracks) s)"
proof (induction "length tracks - i" arbitrary: i s rule: less_induct)
  case less
  show ?case
  proof (cases "i < length tracks")
    case False
    then show ?thesis by (simp add: batch_loop_done)
  next
    case True
    let ?b = "take bs (drop i tracks)"
    let ?s2 = "process_batch e ?b (print (batch_header i bs (length tracks)) s)"
    let ?s4 = "print (progress_line (commit ?s2) (length tracks)) (commit ?s2)"
    have step: "batch_loop e tracks bs i s = batch_loop e tracks bs (i + bs) ?s4"
      using assms True by (rule batch_loop_step)
    have "length tracks - (i + bs) < length tracks - i" using assms True by arith
    then have ih: "core (batch_loop e tracks bs (i + bs) ?s4) =
        core (process_batch e (drop (i + bs) tracks) ?s4)"
      by (rule less)
    have "core ?s4 = core (process_batch e ?b s)"
      by (simp add: core_process_batch [of "print (batch_header i bs (length tracks)) s" s])
    then have "core (process_batch e (drop (i + bs) tracks) ?s4) =
        core (process_batch e (drop (i + bs) tracks) (process_batch e ?b s))"
      by (rule core_process_batch)
    also have "\<dots> = core (process_batch e (?b @ drop (i + bs) tracks) s)"
      by (simp add: process_batch_append)
    also have "?b @ drop (i + bs) tracks = drop i tracks"
      by (rule take_drop_next)
    finally have "core (process_batch e (drop (i + bs) tracks) ?s4) =
        core (process_batch e (drop i tracks) s)" .
    with step ih show ?thesis by (simp only:)
  qed
qed

lemma disk_batch_loop:
  assumes "0 < bs" and "i < length tracks"
  shows "disk (batch_loop e tracks bs i s) = view (batch_loop e tracks bs i s)"
  using assms(2)
proof (induction "length tracks - i" arbitrary: i s rule: less_induct)
  case less
  let ?b = "take bs (drop i tracks)"
  let ?s2 = "process_batch e ?b (print (batch_header i bs (length tracks)) s)"
  let ?s4 = "print (progress_line (commit ?s2) (length tracks)) (commit ?s2)"
  have step: "batch_loop e tracks bs i s = batch_loop e tracks bs (i + bs) ?s4"
    using assms(1) less.prems by (rule batch_loop_step)
  have s4: "disk ?s4 = view ?s4" by (simp add: print_def commit_def)
  show ?case
  proof (cases "i + bs < length tracks")
    case False
    then show ?thesis using step s4 by (simp add: batch_loop_done)
  next
    case True
    have "length tracks - (i + bs) < length tracks - i" using assms(1) less.prems by arith
    from less.hyps [OF this True] step show ?thesis by simp
  qed
qed

lemma process_batch_all_score:
  assumes "\<forall>t \<in> set ts. scores e t"
    and "songs (view s) = Some srows" and "mood_analysis (view s) = Some mrows"
    and "\<forall>t \<in> set done. \<exists>t' \<in> set done. track_id t' = track_id t \<and> song_of t' \<in> set srows"
  shows "\<exists>srows' new.
     processed_count (process_batch e ts s) = processed_count s + length ts \<and>
     error_count (process_batch e ts s) = error_count s \<and>
     songs (view (process_batch e ts s)) = Some srows' \<and>
     mood_analysis (view (process_batch e ts s)) = Some (mrows @ new) \<and>
     list_all2 (row_matches e) ts new \<and>
     (\<forall>t \<in> set (done @ ts). \<exists>t' \<in> set (done @ ts).
        track_id t' = track_id t \<and> song_of t' \<in> set srows')"
  using assms
proof (induction ts arbitrary: s srows mrows "done")
  case Nil
  then show ?case by simp
next
  case (Cons t ts)
  from Cons.prems(1) have sc: "scores e t" and rest: "\<forall>u \<in> set ts. scores e u" by simp_all
  let ?srows1 = "filter (\<lambda>x. song_track_id x \<noteq> track_id t) srows @ [song_of t]"
  from process_track_scores [OF sc Cons.prems(2,3)] obtain r where
    r: "row_matches e t r"
    and s1: "process_track e t s =
       s\<lparr>view := (view s)\<lparr>songs := Some ?srows1,
                         mood_analysis := Some (mrows @ [r]), mood_seq := mood_id r\<rparr>,
         processed_count := processed_count s + 1\<rparr>"
    by blast
  let ?s1 = "process_track e t s"
  have a: "songs (view ?s1) = Some ?srows1" by (simp add: s1)
  have b: "mood_analysis (view ?s1) = Some (mrows @ [r])" by (simp add: s1)
  have c: "\<forall>u \<in> set (done @ [t]). \<exists>t' \<in> set (done @ [t]).
      track_id t' = track_id u \<and> song_of t' \<in> set ?srows1"
  proof
    fix u assume u: "u \<in> set (done @ [t])"
    show "\<exists>t' \<in> set (done @ [t]). track_id t' = track_id u \<and> song_of t' \<in> set ?srows1"
    proof (cases "track_id u = track_id t")
      case True
      then show ?thesis by (intro bexI [of _ t]) simp_all
    next
      case False
      with u have "u \<in> set done" by auto
      with Cons.prems(4) obtain t' where t': "t' \<in> set done" "track_id t' = track_id u"
        "song_of t' \<in> set srows" by blast
      with False have "song_of t' \<in> set ?srows1" by (simp add: song_of_def)
      with t' show ?thesis by (intro bexI [of _ t']) simp_all
    qed
  qed
  from Cons.IH [OF rest a b c] obtain srows' new where
    ih: "processed_count (process_batch e ts ?s1) = processed_count ?s1 + length ts"
      "error_count (process_batch e ts ?s1) = error_count ?s1"
      "songs (view (process_batch e ts ?s1)) = Some srows'"
      "mood_analysis (view (process_batch e ts ?s1)) = Some ((mrows @ [r]) @ new)"
      "list_all2 (row_matches e) ts new"
      "\<forall>u \<in> set ((done @ [t]) @ ts). \<exists>t' \<in> set ((done @ [t]) @ ts).
        track_id t' = track_id u \<and> song_of t' \<in> set srows'"
    by blast
  have p: "processed_count ?s1 = processed_count s + 1" "error_count ?s1 = error_count s"
    by (simp_all add: s1)
  show ?case
    apply (rule exI [of _ srows'], rule exI [of _ "r # new"])
    using ih r p apply simp
    done
qed

lemma process_batch_one_failure:
  assumes "fails_scoring e k" and "\<forall>t \<in> set (pre @ post). scores e t"
    and "songs (view s) = Some srows" and "mood_analysis (view s) = Some mrows"
  shows "\<exists>srows' new.
     processed_count (process_batch e (pre @ k # post) s) = processed_count s + length (pre @ post) \<and>
     error_count (process_batch e (pre @ k # post) s) = error_count s + 1 \<and>
     songs (view (process_batch e (pre @ k # post) s)) = Some srows' \<and>
     mood_analysis (view (process_batch e (pre @ k # post) s)) = Some (mrows @ new) \<and>
     list_all2 (row_matches e) (pre @ post) new \<and>
     (\<forall>t \<in> set (pre @ post). \<exists>t' \<in> set (pre @ post).
        track_id t' = track_id t \<and> song_of t' \<in> set srows')"
proof -
  from assms(2) have pre: "\<forall>t \<in> set pre. scores e t" and post: "\<forall>t \<in> set post. scores e t"
    by simp_all
  let ?s1 = "process_batch e pre s"
  have "\<forall>t \<in> set []. \<exists>t' \<in> set []. track_id t' = track_id t \<and> song_of t' \<in> set srows"
    by simp
  from process_batch_all_score [OF pre assms(3,4) this] obtain srows1 new1 where
    1: "processed_count ?s1 = processed_count s + length pre"
      "error_count ?s1 = error_count s"
      "songs (view ?s1) = Some srows1"
      "mood_analysis (view ?s1) = Some (mrows @ new1)"
      "list_all2 (row_matches e) pre new1"
      "\<forall>t \<in> set ([] @ pre). \<exists>t' \<in> set ([] @ pre). track_id t' = track_id t \<and> song_of t' \<in> set srows1"
    by blast
  let ?s2 = "process_track e k ?s1"
  have s2: "?s2 = ?s1\<lparr>error_count := error_count ?s1 + 1\<rparr>"
    using assms(1) by (rule process_track_fails)
  have 2: "songs (view ?s2) = Some srows1" "mood_analysis (view ?s2) = Some (mrows @ new1)"
    "processed_count ?s2 = processed_count s + length pre" "error_count ?s2 = error_count s + 1"
    using 1 by (simp_all add: s2)
  from 1(6) have c: "\<forall>t \<in> set pre. \<exists>t' \<in> set pre. track_id t' = track_id t \<and> song_of t' \<in> set srows1"
    by simp
  let ?s3 = "process_batch e post ?s2"
  from process_batch_all_score [OF post 2(1,2) c] obtain srows' new2 where
    3: "processed_count ?s3 = processed_count ?s2 + length post"
      "error_count ?s3 = error_count ?s2"
      "songs (view ?s3) = Some srows'"
      "mood_analysis (view ?s3) = Some ((mrows @ new1) @ new2)"
      "list_all2 (row_matches e) post new2"
      "\<forall>t \<in> set (pre @ post). \<exists>t' \<in> set (pre @ post). track_id t' = track_id t \<and> song_of t' \<in> set srows'"
    by blast
  have eq: "process_batch e (pre @ k # post) s = ?s3"
    by (simp add: process_batch_append)
  have l: "list_all2 (row_matches e) (pre @ post) (new1 @ new2)"
    using 1(5) 3(5) by (rule list_all2_appendI)
  show ?thesis
    unfolding eq
    apply (rule exI [of _ srows'], rule exI [of _ "new1 @ new2"])
    using 2 3 l apply simp
    done
qed

lemma print_fields [simp]:
  "disk (print line s) = disk s" "view (print line s) = view s"
  "processed_count (print line s) = processed_count s" "error_count (print line s) = error_count s"
  by (simp_all add: print_def)

lemma close_fields [simp]:
  "disk (close s) = disk s" "view (close s) = disk s"
  "processed_count (close s) = processed_count s" "error_count (close s) = error_count s"
  by (simp_all add: close_def)

lemma process_and_store_completes:
  assumes "load_all_tracks e = tracks" and "tracks \<noteq> []" and "0 < batch_size"
  shows "\<exists>s. process_and_store e batch_size db = (None, s) \<and> view s = disk s \<and>
    (disk s, processed_count s, error_count s) =
      core (process_batch e tracks
        \<lparr>disk = db, view = db, processed_count = 0, error_count = 0, console = []\<rparr>)"
proof -
  let ?s0 = "\<lparr>disk = db, view = db, processed_count = 0, error_count = 0, console = []\<rparr>"
  let ?s2 = "print (CHR 0x0A # ''Processing '' @ str_nat (length tracks) @ '' tracks...'')
               (print ''Loading tracks metadata...'' ?s0)"
  let ?s3 = "batch_loop e tracks (nat batch_size) 0 ?s2"
  from assms(3) have bs: "0 < nat batch_size" by simp
  from assms(2) have len: "0 < length tracks" by simp
  have "core ?s3 = core (process_batch e (drop 0 tracks) ?s2)"
    using bs by (rule core_batch_loop)
  also have "\<dots> = core (process_batch e tracks ?s2)"
    by (simp only: drop_0)
  also have "\<dots> = core (process_batch e tracks ?s0)"
  proof (rule core_process_batch)
    show "core ?s2 = core ?s0" by (simp only: core_print)
  qed
  finally have c: "core ?s3 = core (process_batch e tracks ?s0)" .
  have d: "disk ?s3 = view ?s3" using bs len by (rule disk_batch_loop)
  from c d have c': "(disk ?s3, processed_count ?s3, error_count ?s3) =
      core (process_batch e tracks ?s0)"
    by (simp add: core_def)
  have "\<exists>s. process_and_store e batch_size db = (None, s) \<and>
      disk s = disk ?s3 \<and> view s = disk ?s3 \<and> processed_count s = processed_count ?s3 \<and>
      error_count s = error_count ?s3"
    using assms by (simp add: process_and_store_def Let_def)
  with c' show ?thesis by auto
qed

lemma demo_features_scored: "analyze_mood demo_features \<noteq> None"
  unfolding demo_features_def
  by (subst analyze_mood_floats [of _ 180 "0.05" 2000 "0.1"]) simp_all

lemma empty_features_fail: "analyze_mood Map.empty = None"
  by (simp add: analyze_mood_def analyze_mood_body_def tempo_factor_def getitem_def)

lemma demo_paths:
  "file_path (track_of_row (demo_row 1)) = ''dataset/fma_small/000/000001.mp3''"
  "file_path (track_of_row (demo_row 2)) = ''dataset/fma_small/000/000002.mp3''"
  "file_path (track_of_row (demo_row 3)) = ''dataset/fma_small/000/000003.mp3''"
  by (simp_all add: track_of_row_def demo_row_def path_eval)

text \<open>
  Claim C5. In a run over N tracks of which exactly one fails at the scoring stage, while
  every other track is scored and the database has both tables (so that the writes
  succeed), for every positive batch size: the run ends without an exception,
  processed_count is N - 1, error_count is 1, nothing is left uncommitted, the committed
  mood_analysis table holds, after the rows it had, the row of each successful track in
  order, and the committed songs table holds for each successful track the row of a
  successful track with that id (of the track itself when the ids are distinct).
\<close>

theorem one_failure_does_not_abort:
  assumes "load_all_tracks e = pre @ k # post"
    and "fails_scoring e k" and "\<forall>t \<in> set (pre @ post). scores e t"
    and "songs db = Some srows" and "mood_analysis db = Some mrows"
    and "0 < batch_size"
  shows "\<exists>s srows' new.
     process_and_store e batch_size db = (None, s) \<and>
     processed_count s = length (pre @ k # post) - 1 \<and> error_count s = 1 \<and>
     view s = disk s \<and>
     songs (disk s) = Some srows' \<and> mood_analysis (disk s) = Some (mrows @ new) \<and>
     list_all2 (row_matches e) (pre @ post) new \<and>
     (\<forall>t \<in> set (pre @ post). \<exists>t' \<in> set (pre @ post).
        track_id t' = track_id t \<and> song_of t' \<in> set srows') \<and>
     (distinct (map track_id (pre @ post)) \<longrightarrow>
        (\<forall>t \<in> set (pre @ post). song_of t \<in> set srows'))"
proof -
  let ?s0 = "\<lparr>disk = db, view = db, processed_count = 0, error_count = 0, console = []\<rparr>"
  let ?r = "process_batch e (pre @ k # post) ?s0"
  have ne: "pre @ k # post \<noteq> []" by simp
  from process_and_store_completes [OF assms(1) ne assms(6), of db] obtain s where
    s: "process_and_store e batch_size db = (None, s)" "view s = disk s"
       "(disk s, processed_count s, error_count s) = core ?r"
    by blast
  have "songs (view ?s0) = Some srows" "mood_analysis (view ?s0) = Some mrows"
    using assms(4,5) by simp_all
  from process_batch_one_failure [OF assms(2,3) this] obtain srows' new where
    r: "processed_count ?r = processed_count ?s0 + length (pre @ post)"
       "error_count ?r = error_count ?s0 + 1"
       "songs (view ?r) = Some srows'"
       "mood_analysis (view ?r) = Some (mrows @ new)"
       "list_all2 (row_matches e) (pre @ post) new"
       "\<forall>t \<in> set (pre @ post). \<exists>t' \<in> set (pre @ post).
          track_id t' = track_id t \<and> song_of t' \<in> set srows'"
    by blast
  from s(3) have f: "disk s = view ?r" "processed_count s = processed_count ?r"
    "error_count s = error_count ?r"
    by (simp_all add: core_def)
  have d: "distinct (map track_id (pre @ post)) \<longrightarrow>
        (\<forall>t \<in> set (pre @ post). song_of t \<in> set srows')"
  proof (intro impI ballI)
    fix t assume dist: "distinct (map track_id (pre @ post))" and t: "t \<in> set (pre @ post)"
    from r(6) t obtain t' where t': "t' \<in> set (pre @ post)" "track_id t' = track_id t"
      "song_of t' \<in> set srows'" by blast
    from dist have "inj_on track_id (set (pre @ post))" by (simp only: distinct_map)
    with t t'(1,2) have "t' = t" by (auto dest: inj_onD)
    with t'(3) show "song_of t \<in> set srows'" by simp
  qed
  have c: "processed_count s = length (pre @ k # post) - 1" "error_count s = 1"
    using f r(1,2) by simp_all
  show ?thesis
    apply (rule exI [of _ s], rule exI [of _ srows'], rule exI [of _ new])
    using s(1,2) c f(1) r(3,4,5,6) d apply (simp only: simp_thms)
    done
qed

theorem one_failure_does_not_abort_witness:
  "load_all_tracks demo_env =
     [track_of_row (demo_row 1)] @ track_of_row (demo_row 2) # [track_of_row (demo_row 3)] \<and>
   fails_scoring demo_env (track_of_row (demo_row 2)) \<and>
   scores demo_env (track_of_row (demo_row 1)) \<and>
   scores demo_env (track_of_row (demo_row 3)) \<and>
   songs demo_db = Some [] \<and> mood_analysis demo_db = Some [] \<and> (0::int) < 2 \<and>
   (\<exists>s srows' new.
      process_and_store demo_env 2 demo_db = (None, s) \<and>
      processed_count s = 2 \<and> error_count s = 1 \<and> view s = disk s \<and>
      songs (disk s) = Some srows' \<and> mood_analysis (disk s) = Some new \<and>
      list_all2 (row_matches demo_env) [track_of_row (demo_row 1), track_of_row (demo_row 3)] new \<and>
      song_of (track_of_row (demo_row 1)) \<in> set srows' \<and>
      song_of (track_of_row (demo_row 3)) \<in> set srows')"
proof -
  let ?t1 = "track_of_row (demo_row 1)" and ?t2 = "track_of_row (demo_row 2)"
    and ?t3 = "track_of_row (demo_row 3)"
  have h1: "load_all_tracks demo_env = [?t1] @ ?t2 # [?t3]"
    by (simp add: load_all_tracks_def demo_env_def)
  have h2: "fails_scoring demo_env ?t2"
    by (simp add: fails_scoring_def demo_env_def demo_paths empty_features_fail)
  have s1: "scores demo_env ?t1"
    by (simp add: scores_def demo_env_def demo_paths demo_features_scored)
  have s3: "scores demo_env ?t3"
    by (simp add: scores_def demo_env_def demo_paths demo_features_scored)
  from s1 s3 have h3: "\<forall>t \<in> set ([?t1] @ [?t3]). scores demo_env t" by simp
  have h4: "songs demo_db = Some []" and h5: "mood_analysis demo_db = Some []"
    by (simp_all add: demo_db_def)
  have h6: "(0::int) < 2" by simp
  have dist: "distinct (map track_id ([?t1] @ [?t3]))"
    by (simp add: track_of_row_def demo_row_def)
  from one_failure_does_not_abort [OF h1 h2 h3 h4 h5 h6] obtain s srows' new where
    c: "process_and_store demo_env 2 demo_db = (None, s)"
       "processed_count s = length ([?t1] @ ?t2 # [?t3]) - 1" "error_count s = 1"
       "view s = disk s" "songs (disk s) = Some srows'"
       "mood_analysis (disk s) = Some ([] @ new)"
       "list_all2 (row_matches demo_env) ([?t1] @ [?t3]) new"
       "distinct (map track_id ([?t1] @ [?t3])) \<longrightarrow>
          (\<forall>t \<in> set ([?t1] @ [?t3]). song_of t \<in> set srows')"
    by blast
  from c(8) dist have m: "song_of ?t1 \<in> set srows'" "song_of ?t3 \<in> set srows'" by simp_all
  from c(2) have n: "processed_count s = 2" by simp
  from c(6) have mo: "mood_analysis (disk s) = Some new" by simp
  from c(7) have l: "list_all2 (row_matches demo_env) [?t1, ?t3] new" by simp
  have "\<exists>s srows' new.
      process_and_store demo_env 2 demo_db = (None, s) \<and>
      processed_count s = 2 \<and> error_count s = 1 \<and> view s = disk s \<and>
      songs (disk s) = Some srows' \<and> mood_analysis (disk s) = Some new \<and>
      list_all2 (row_matches demo_env) [?t1, ?t3] new \<and>
      song_of ?t1 \<in> set srows' \<and> song_of ?t3 \<in> set srows'"
    apply (rule exI [of _ s], rule exI [of _ srows'], rule exI [of _ new])
    using c(1) n c(3,4,5) mo l m apply (simp only: simp_thms)
    done
  with h1 h2 s1 s3 h4 h5 h6 show ?thesis by (simp only: simp_thms)
qed

section \<open>Properties of the database setup\<close>

lemma lower_char_y: "lower_char c = CHR ''y'' \<longleftrightarrow> c = CHR ''y'' \<or> c = CHR ''Y''"
  by (auto simp: lower_char_def split: if_splits)

lemma lower_y: "lower s = ''y'' \<longleftrightarrow> s = ''y'' \<or> s = ''Y''"
proof (cases s)
  case Nil
  then show ?thesis by (simp add: lower_def)
next
  case (Cons c rest)
  then show ?thesis using lower_char_y [of c] by (auto simp: lower_def)
qed

text \<open>
  Claim C10. When the database file exists and the answer is neither \<^verbatim>\<open>y\<close> nor \<^verbatim>\<open>Y\<close>,
  \<^verbatim>\<open>create_database\<close> returns False and the file system, the database file included,
  is as before; on the answer \<^verbatim>\<open>y\<close> or \<^verbatim>\<open>Y\<close> the existing file is deleted: the function
  returns True and the file is a new database with the two tables, both empty.
\<close>

theorem create_database_keeps_file:
  "(fs db_name = Some old \<and> user_input \<noteq> ''y'' \<and> user_input \<noteq> ''Y'' \<longrightarrow>
      fst (create_database db_name user_input fs) = False \<and>
      fst (snd (create_database db_name user_input fs)) = fs) \<and>
   (fs db_name = Some old \<and> (user_input = ''y'' \<or> user_input = ''Y'') \<longrightarrow>
      fst (create_database db_name user_input fs) = True \<and>
      fst (snd (create_database db_name user_input fs)) =
        fs(db_name \<mapsto> \<lparr>songs = Some [], mood_analysis = Some [], mood_seq = 0\<rparr>))"
proof (intro conjI impI)
  assume a: "fs db_name = Some old \<and> user_input \<noteq> ''y'' \<and> user_input \<noteq> ''Y''"
  then have d: "db_name \<in> dom fs" and l: "lower user_input \<noteq> ''y''"
    by (auto simp: lower_y)
  show "fst (create_database db_name user_input fs) = False"
    using d l by (simp add: create_database_def Let_def)
  show "fst (snd (create_database db_name user_input fs)) = fs"
    using d l by (simp add: create_database_def Let_def)
next
  assume a: "fs db_name = Some old \<and> (user_input = ''y'' \<or> user_input = ''Y'')"
  then have d: "db_name \<in> dom fs" and l: "lower user_input = ''y''"
    by (auto simp only: lower_y domI)
  show "fst (create_database db_name user_input fs) = True"
    using d l by (simp add: create_database_def Let_def)
  show "fst (snd (create_database db_name user_input fs)) =
        fs(db_name \<mapsto> \<lparr>songs = Some [], mood_analysis = Some [], mood_seq = 0\<rparr>)"
    using d l by (simp add: create_database_def Let_def connect_def create_tables_def)
qed

theorem create_database_keeps_file_witness:
  "[''music_mood.db'' \<mapsto> demo_db\<lparr>mood_seq := 5\<rparr>] ''music_mood.db'' = Some (demo_db\<lparr>mood_seq := 5\<rparr>) \<and>
   ''n'' \<noteq> ''y'' \<and> ''n'' \<noteq> ''Y'' \<and>
   fst (create_database ''music_mood.db'' ''n'' [''music_mood.db'' \<mapsto> demo_db\<lparr>mood_seq := 5\<rparr>]) = False \<and>
   fst (snd (create_database ''music_mood.db'' ''n'' [''music_mood.db'' \<mapsto> demo_db\<lparr>mood_seq := 5\<rparr>])) =
     [''music_mood.db'' \<mapsto> demo_db\<lparr>mood_seq := 5\<rparr>] \<and>
   fst (create_database ''music_mood.db'' ''Y'' [''music_mood.db'' \<mapsto> demo_db\<lparr>mood_seq := 5\<rparr>]) = True \<and>
   fst (snd (create_database ''music_mood.db'' ''Y'' [''music_mood.db'' \<mapsto> demo_db\<lparr>mood_seq := 5\<rparr>])) =
     [''music_mood.db'' \<mapsto> \<lparr>songs = Some [], mood_analysis = Some [], mood_seq = 0\<rparr>]"
proof -
  let ?fs = "[''music_mood.db'' \<mapsto> demo_db\<lparr>mood_seq := 5\<rparr>]"
  have a: "?fs ''music_mood.db'' = Some (demo_db\<lparr>mood_seq := 5\<rparr>)" by simp
  have b: "''n'' \<noteq> ''y''" "''n'' \<noteq> ''Y''" by simp_all
  have u: "?fs(''music_mood.db'' \<mapsto> \<lparr>songs = Some [], mood_analysis = Some [], mood_seq = 0\<rparr>) =
      [''music_mood.db'' \<mapsto> \<lparr>songs = Some [], mood_analysis = Some [], mood_seq = 0\<rparr>]"
    by simp
  from a b u
    create_database_keeps_file [of ?fs "''music_mood.db''" "demo_db\<lparr>mood_seq := 5\<rparr>" "''n''"]
    create_database_keeps_file [of ?fs "''music_mood.db''" "demo_db\<lparr>mood_seq := 5\<rparr>" "''Y''"]
  show ?thesis by (simp only: simp_thms)
qed

end
